theory Spec2Isabelle
  imports Main "HOL-Library.List_Lexorder" "HOL-Library.Char_ord"
begin

section \<open>IDAES extension commands (idaes/commands/extensions.py)\<close>

text \<open>
  A shallow embedding of the command module that installs and reports on the IDAES binary
  extensions. Every command of the module writes to standard output, calls collaborators of
  \<^verbatim>\<open>idaes.commands.util.download_bin\<close> and reads constants of \<^verbatim>\<open>idaes.config\<close>;
  both are imported, not defined here, so their constants and functions are fields of
  an environment record and every theorem holds for all their values.

  A Python \<^verbatim>\<open>str\<close> is a \<open>string\<close>; a character is a code point below 256. A dictionary is
  an association list in insertion order, which is the order \<^verbatim>\<open>items()\<close> iterates in.
\<close>

subsection \<open>Exceptions, observable events and the command monad\<close>

text \<open>
  The exceptions that the module catches or that its own statements can raise, and
  \<open>OtherError\<close> for whatever else a collaborator raises.
\<close>

datatype error =
    UnsupportedPlatformError string
  | FileNotFoundError
  | UnboundLocalError string
  | ValueError string
  | OtherError string

text \<open>The arguments of the one call of \<^verbatim>\<open>download_binaries\<close>, in the order they are passed.\<close>

record download_args =
  arg_release :: "string option"
  arg_url :: "string option"
  arg_insecure :: bool
  arg_cacert :: "string option"
  arg_verbose :: bool
  arg_platform :: string
  arg_nochecksum :: bool
  arg_library_only :: bool
  arg_no_download :: bool
  arg_extras_only :: bool
  arg_extras :: "string list"
  arg_alt_path :: "string option"

text \<open>
  What a run does that can be seen from outside, in order: a line sent to standard output
  by \<^verbatim>\<open>click.echo\<close> or \<^verbatim>\<open>print\<close> (the text without the newline that both append), a call
  of \<^verbatim>\<open>download_binaries\<close>, opening a file for writing, and one \<^verbatim>\<open>write\<close> to that file.
\<close>

datatype event =
    Echo string
  | DownloadBinaries download_args
  | OpenWrite string
  | FileWrite string

text \<open>
  A statement yields the events it caused and either the exception it raised (\<open>Inl\<close>) or
  its value (\<open>Inr\<close>). The events before an exception stay.
\<close>

type_synonym 'a io = "event list \<times> (error + 'a)"

definition io_return :: "'a \<Rightarrow> 'a io" where
  "io_return x = ([], Inr x)"

definition io_raise :: "error \<Rightarrow> 'a io" where
  "io_raise e = ([], Inl e)"

definition echo :: "string \<Rightarrow> unit io" where
  "echo s = ([Echo s], Inr ())"

text \<open>The result of a call of a collaborator, which causes no event of its own.\<close>

definition call :: "error + 'a \<Rightarrow> 'a io" where
  "call r = ([], r)"

fun io_bind :: "'a io \<Rightarrow> ('a \<Rightarrow> 'b io) \<Rightarrow> 'b io" where
  "io_bind (t, Inl e) f = (t, Inl e)"
| "io_bind (t, Inr x) f = (case f x of (t', r) \<Rightarrow> (t @ t', r))"

definition io_seq :: "unit io \<Rightarrow> 'b io \<Rightarrow> 'b io" where
  "io_seq m n = io_bind m (\<lambda>_. n)"

text \<open>A block of statements, and a \<^verbatim>\<open>for\<close> loop whose body may raise.\<close>

fun block :: "unit io list \<Rightarrow> unit io" where
  "block [] = io_return ()"
| "block (m # ms) = io_seq m (block ms)"

fun for_each :: "('a \<Rightarrow> unit io) \<Rightarrow> 'a list \<Rightarrow> unit io" where
  "for_each body [] = io_return ()"
| "for_each body (x # xs) = io_seq (body x) (for_each body xs)"

subsection \<open>String functions of Python that the module uses\<close>

definition NL :: char where
  "NL = CHR 0x0A"

text \<open>\<^verbatim>\<open>str.isspace\<close> on one character below 256, and \<^verbatim>\<open>str.strip()\<close>.\<close>

definition isspace :: "char \<Rightarrow> bool" where
  "isspace c \<longleftrightarrow> (of_char c :: nat) \<in> {9, 10, 11, 12, 13, 28, 29, 30, 31, 32, 133, 160}"

definition strip :: "string \<Rightarrow> string" where
  "strip s = rev (dropWhile isspace (rev (dropWhile isspace s)))"

text \<open>
  The text of a file is what text mode delivers, with every line ending already
  translated to \<open>NL\<close>. \<^verbatim>\<open>readline()\<close> on a fresh file returns the first line with its
  newline; \<^verbatim>\<open>readlines()\<close> returns every line with its newline.
\<close>

fun readline :: "string \<Rightarrow> string" where
  "readline [] = []"
| "readline (c # cs) = (if c = NL then [c] else c # readline cs)"

fun readlines_from :: "string \<Rightarrow> string \<Rightarrow> string list" where
  "readlines_from cur [] = (if cur = [] then [] else [cur])"
| "readlines_from cur (c # cs) =
     (if c = NL then (cur @ [c]) # readlines_from [] cs else readlines_from (cur @ [c]) cs)"

definition readlines :: "string \<Rightarrow> string list" where
  "readlines s = readlines_from [] s"

text \<open>\<^verbatim>\<open>sep.join(xs)\<close>, and the format specifications \<^verbatim>\<open>{s:>w}\<close> and \<^verbatim>\<open>{s:w}\<close> on a string.\<close>

fun str_join :: "string \<Rightarrow> string list \<Rightarrow> string" where
  "str_join sep [] = []"
| "str_join sep [x] = x"
| "str_join sep (x # y # ys) = x @ sep @ str_join sep (y # ys)"

definition rjust :: "nat \<Rightarrow> string \<Rightarrow> string" where
  "rjust w s = replicate (w - length s) CHR '' '' @ s"

definition ljust :: "nat \<Rightarrow> string \<Rightarrow> string" where
  "ljust w s = s @ replicate (w - length s) CHR '' ''"

text \<open>
  \<^verbatim>\<open>os.path.join(a, b)\<close> of \<^verbatim>\<open>posixpath\<close>: an absolute \<open>b\<close> replaces \<open>a\<close>; otherwise a
  separator is put between the two unless \<open>a\<close> is empty or ends with one.
\<close>

definition os_path_join :: "string \<Rightarrow> string \<Rightarrow> string" where
  "os_path_join a b =
     (if b \<noteq> [] \<and> hd b = CHR ''/'' then b
      else if a = [] \<or> last a = CHR ''/'' then a @ b
      else a @ ''/'' @ b)"

subsection \<open>The environment: \<^verbatim>\<open>idaes.config\<close>, \<^verbatim>\<open>download_bin\<close>, the file system\<close>

text \<open>
  \<open>base_platforms\<close>, the two alias dictionaries, \<open>extra_binaries\<close> (package name to the
  platforms it is built for), \<open>default_binary_release\<close>, the two canonicalisation
  functions and \<open>bin_directory\<close> are the constants of \<^verbatim>\<open>idaes.config\<close> and \<^verbatim>\<open>idaes\<close>.

  \<open>get_file_downloader\<close> is the result of \<^verbatim>\<open>_get_file_downloader(False, None)\<close> (its first
  component), \<open>get_arch_and_platform fd distro\<close> the second component of
  \<^verbatim>\<open>_get_arch_and_platform(fd, distro)\<close>, \<open>machine\<close> the result of \<^verbatim>\<open>platform.machine()\<close>,
  \<open>open_read p\<close> the text of the file at \<open>p\<close> or the exception \<^verbatim>\<open>open(p, "r")\<close> raises,
  and \<open>open_write p\<close> the outcome of \<^verbatim>\<open>open(p, "w")\<close>, which raises when the directory is
  missing or not writable.
  \<open>download_binaries\<close> returns a dictionary whose values are already rendered by \<^verbatim>\<open>str\<close>.
\<close>

record 'fd env =
  base_platforms :: "string list"
  binary_distro_map :: "(string \<times> string) list"
  binary_arch_map :: "(string \<times> string) list"
  extra_binaries :: "(string \<times> string list) list"
  default_binary_release :: "string option"
  canonical_distro :: "string \<Rightarrow> string"
  canonical_arch :: "string \<Rightarrow> string"
  bin_directory :: string
  get_file_downloader :: "error + 'fd"
  get_arch_and_platform :: "'fd \<Rightarrow> string \<Rightarrow> error + string"
  get_release_platform :: "string \<Rightarrow> error + string"
  machine :: string
  download_binaries :: "download_args \<Rightarrow> error + (string \<times> string) list"
  hash_file_sha256 :: "string \<Rightarrow> error + string"
  open_read :: "string \<Rightarrow> error + string"
  open_write :: "string \<Rightarrow> error + unit"

subsection \<open>\<^verbatim>\<open>print_header\<close>, \<^verbatim>\<open>print_footer\<close>\<close>

definition print_header :: "string \<Rightarrow> unit io" where
  "print_header title =
     block [echo (replicate 65 CHR ''-''),
            echo (''IDAES Extensions '' @ title),
            echo (replicate 65 CHR ''='')]"

definition print_footer :: "unit io" where
  "print_footer = block [echo [], echo (replicate 65 CHR ''='')]"

subsection \<open>\<^verbatim>\<open>print_extensions_version\<close>, \<^verbatim>\<open>print_license\<close>\<close>

text \<open>
  The \<^verbatim>\<open>try\<close> statement around \<^verbatim>\<open>open\<close> and \<^verbatim>\<open>readline().strip()\<close>: only
  \<^verbatim>\<open>FileNotFoundError\<close> is caught, and gives the placeholder.
\<close>

definition read_version :: "'fd env \<Rightarrow> string \<Rightarrow> string io" where
  "read_version E v =
     (case open_read E v of
        Inr text \<Rightarrow> io_return (strip (readline text))
      | Inl FileNotFoundError \<Rightarrow> io_return ''no version file found''
      | Inl e \<Rightarrow> io_raise e)"

definition print_extensions_version :: "'fd env \<Rightarrow> bool \<Rightarrow> string option \<Rightarrow> int io" where
  "print_extensions_version E lib_only bin_dir_arg =
     io_seq (print_header ''Build Versions'')
      (let bin_dir = (case bin_dir_arg of None \<Rightarrow> bin_directory E | Some d \<Rightarrow> d) in
       io_seq
         (if \<not> lib_only then
            io_bind (read_version E (os_path_join bin_dir ''version_solvers.txt''))
              (\<lambda>v. echo (''Solvers:  v'' @ v))
          else io_return ())
         (io_bind (read_version E (os_path_join bin_dir ''version_lib.txt''))
            (\<lambda>v. io_seq (echo (''Library:  v'' @ v))
               (io_seq print_footer (io_return 0)))))"

definition print_license :: "'fd env \<Rightarrow> int io" where
  "print_license E =
     io_seq (print_header ''License Information'')
      (io_seq
         (case open_read E (os_path_join (bin_directory E) ''license.txt'') of
            Inr text \<Rightarrow> for_each (\<lambda>line. echo (strip line)) (readlines text)
          | Inl FileNotFoundError \<Rightarrow> echo ''no license file found''
          | Inl e \<Rightarrow> io_raise e)
         (io_seq (echo []) (io_seq print_footer (io_return 0))))"

subsection \<open>\<^verbatim>\<open>print_build_info\<close>\<close>

text \<open>
  The reverse alias map \<^verbatim>\<open>rmap = defaultdict(list)\<close>, filled by \<^verbatim>\<open>rmap[v].append(k)\<close>
  for every item \<open>(k, v)\<close> of an alias dictionary: canonical name to its aliases, both in
  insertion order.
\<close>

fun rmap_append :: "(string \<times> string list) list \<Rightarrow> string \<Rightarrow> string \<Rightarrow> (string \<times> string list) list" where
  "rmap_append [] v k = [(v, [k])]"
| "rmap_append ((v', ks) # m) v k =
     (if v' = v then (v', ks @ [k]) # m else (v', ks) # rmap_append m v k)"

definition build_rmap :: "(string \<times> string) list \<Rightarrow> (string \<times> string list) list" where
  "build_rmap data = foldl (\<lambda>m (k, v). rmap_append m v k) [] data"

text \<open>\<^verbatim>\<open>rmap[name]\<close> on the \<^verbatim>\<open>defaultdict\<close>: a missing key reads as the empty list.\<close>

definition rmap_get :: "(string \<times> string list) list \<Rightarrow> string \<Rightarrow> string list" where
  "rmap_get rmap name = (case map_of rmap name of Some ks \<Rightarrow> ks | None \<Rightarrow> [])"

text \<open>
  One round of the loop over \<^verbatim>\<open>("Platform", binary_distro_map)\<close> and
  \<^verbatim>\<open>("Architecture", binary_arch_map)\<close>. \<^verbatim>\<open>max\<close> of no lengths raises \<^verbatim>\<open>ValueError\<close>.
\<close>

definition print_aliases :: "string \<Rightarrow> (string \<times> string) list \<Rightarrow> unit io" where
  "print_aliases name data =
     io_seq (echo (''\<newline>'' @ name @ '' aliases:''))
      (let rmap = build_rmap data in
       if rmap = [] then io_raise (ValueError ''max() arg is an empty sequence'')
       else
         (let w = fold max (map (\<lambda>(name, ks). length name) rmap) 0 in
          for_each
            (\<lambda>name. echo (''    '' @ rjust w name @ '': ''
                            @ str_join '', '' (sort (rmap_get rmap name))))
            (sort (map fst rmap))))"

text \<open>
  The part up to the detection of the current system: header, the catalogue of builds,
  the two alias tables, and the heading of the system information.
\<close>

definition print_catalog :: "'fd env \<Rightarrow> unit io" where
  "print_catalog E =
     block [print_header ''Build Information'',
            echo ''\<newline>All Builds (Platform-Architecture):'',
            for_each (\<lambda>build. echo (''   '' @ build)) (base_platforms E),
            print_aliases ''Platform'' (binary_distro_map E),
            print_aliases ''Architecture'' (binary_arch_map E),
            echo ''\<newline>Current system information:'']"

text \<open>
  The part after the detection: canonicalise the raw platform and architecture, join
  them with \<open>-\<close>, look the build up in \<open>base_platforms\<close> and report.
\<close>

definition print_system :: "'fd env \<Rightarrow> string \<Rightarrow> string \<Rightarrow> unit io" where
  "print_system E platform arch =
     (let to_platform = canonical_distro E platform;
          to_mach = canonical_arch E arch;
          to_build = to_platform @ ''-'' @ to_mach;
          has_build = (to_build \<in> set (base_platforms E))
      in block
        [echo (''       Platform: '' @ platform
                 @ (if to_platform = platform then [] else '' -> '' @ to_platform)),
         echo (''   Architecture: '' @ arch
                 @ (if to_mach = arch then [] else '' -> '' @ to_mach)),
         if has_build then echo (''      Use build: '' @ to_build)
         else echo ''   !! Unsupported platform/architecture combination'',
         print_footer])"

definition print_build_info :: "'fd env \<Rightarrow> unit io" where
  "print_build_info E =
     io_bind (call (get_file_downloader E)) (\<lambda>fd.
       io_seq (print_catalog E)
        (io_bind (call (get_arch_and_platform E fd ''auto'')) (\<lambda>platform.
           print_system E platform (machine E))))"

subsection \<open>The command \<^verbatim>\<open>get-extensions\<close>\<close>

record options =
  opt_release :: "string option"
  opt_url :: "string option"
  opt_insecure :: bool
  opt_cacert :: "string option"
  opt_verbose :: bool
  opt_distro :: string
  opt_nochecksum :: bool
  opt_library_only :: bool
  opt_no_download :: bool
  opt_info :: bool
  opt_extras_only :: bool
  opt_extra :: "string list"
  opt_to :: "string option"

text \<open>
  The arguments of the call of \<^verbatim>\<open>download_binaries\<close>; \<open>release\<close> is the local variable,
  which by then holds the default release when neither option was given.
\<close>

definition download_call_args :: "options \<Rightarrow> string option \<Rightarrow> download_args" where
  "download_call_args opts release =
     \<lparr>arg_release = release, arg_url = opt_url opts, arg_insecure = opt_insecure opts,
      arg_cacert = opt_cacert opts, arg_verbose = opt_verbose opts,
      arg_platform = opt_distro opts, arg_nochecksum = opt_nochecksum opts,
      arg_library_only = opt_library_only opts, arg_no_download = opt_no_download opts,
      arg_extras_only = opt_extras_only opts, arg_extras = opt_extra opts,
      arg_alt_path = opt_to opts\<rparr>"

definition cmd_name :: string where
  "cmd_name = ''idaes get-extensions''"

definition guidance :: string where
  "guidance =
     ''Use the command '' @ [CHR 0x27] @ cmd_name
       @ '' --distro <os>' to specify an OS distribution\<newline>''
       @ ''Use the command '' @ [CHR 0x27] @ cmd_name
       @ '' --info' to see supported platforms''"

text \<open>The call of \<^verbatim>\<open>download_binaries\<close>: the call is an event, its result the value.\<close>

definition call_download_binaries :: "'fd env \<Rightarrow> download_args \<Rightarrow> (string \<times> string) list io" where
  "call_download_binaries E args = ([DownloadBinaries args], download_binaries E args)"

text \<open>
  The branch that downloads, with its \<^verbatim>\<open>try\<close> statement: \<^verbatim>\<open>UnsupportedPlatformError\<close>
  is caught, reported and ends the command; any other exception propagates; on success
  the dictionary is printed (\<^verbatim>\<open>--no-download\<close>) or the installed versions are.
\<close>

definition get_files :: "'fd env \<Rightarrow> options \<Rightarrow> string option \<Rightarrow> unit io" where
  "get_files E opts release =
     io_seq (echo ''Getting files...'')
      (case call_download_binaries E (download_call_args opts release) of
         (t, Inl (UnsupportedPlatformError msg)) \<Rightarrow>
           io_seq (t, Inr ()) (block [echo [], echo msg, echo [], echo guidance])
       | (t, Inl e) \<Rightarrow> (t, Inl e)
       | (t, Inr d) \<Rightarrow>
           io_seq (t, Inr ())
            (io_seq (echo ''Done'')
              (if opt_no_download opts then
                 for_each (\<lambda>(k, i). echo (ljust 14 k @ '': '' @ i)) d
               else
                 io_bind (print_extensions_version E (opt_library_only opts) (opt_to opts))
                   (\<lambda>_. io_return ()))))"

definition get_extensions :: "'fd env \<Rightarrow> options \<Rightarrow> unit io" where
  "get_extensions E opts =
     (if opt_info opts then print_build_info E
      else
        (let release =
               (if opt_url opts = None \<and> opt_release opts = None
                then default_binary_release E else opt_release opts)
         in if opt_url opts \<noteq> None \<and> release \<noteq> None then
              echo ''\<newline>* You must provide either a release or url not both.''
            else if opt_url opts \<noteq> None \<or> release \<noteq> None then
              get_files E opts release
            else
              echo ''\<newline>* You must provide a download URL for IDAES binary files.''))"

subsection \<open>The command \<^verbatim>\<open>hash-extensions\<close>\<close>

text \<open>
  \<^verbatim>\<open>_write_hash(fp, pack, plat)\<close>: the hash is computed first, so a failing hash writes
  nothing of its line; then come the four writes. The hash of a file may raise, and then
  the command ends with that exception and the manifest keeps the lines written before.
  A write to the open manifest succeeds.
\<close>

definition artifact_file :: "string \<Rightarrow> string \<Rightarrow> string" where
  "artifact_file pack plat = ''idaes-'' @ pack @ ''-'' @ plat @ ''.tar.gz''"

text \<open>A file name as the command addresses it: joined to \<^verbatim>\<open>path\<close> unless that is \<^verbatim>\<open>None\<close>.\<close>

definition under_path :: "string option \<Rightarrow> string \<Rightarrow> string" where
  "under_path path f = (case path of Some p \<Rightarrow> os_path_join p f | None \<Rightarrow> f)"

definition write_hash :: "'fd env \<Rightarrow> string option \<Rightarrow> string \<Rightarrow> string \<Rightarrow> unit io" where
  "write_hash E path pack plat =
     (let f = artifact_file pack plat in
      io_bind (call (hash_file_sha256 E (under_path path f)))
        (\<lambda>h. block [([FileWrite h], Inr ()), ([FileWrite ''  ''], Inr ()),
                     ([FileWrite f], Inr ()), ([FileWrite [NL]], Inr ())]))"

text \<open>
  \<^verbatim>\<open>with open(hfile, "w") as f\<close>: a failing open raises before anything is hashed or
  written; a successful one is an event.
\<close>

definition open_for_writing :: "'fd env \<Rightarrow> string \<Rightarrow> unit io" where
  "open_for_writing E hfile =
     (case open_write E hfile of
        Inl e \<Rightarrow> ([], Inl e)
      | Inr fp \<Rightarrow> ([OpenWrite hfile], Inr fp))"

definition hash_extensions :: "'fd env \<Rightarrow> string \<Rightarrow> string option \<Rightarrow> unit io" where
  "hash_extensions E release path =
     (let hfile = under_path path (''sha256sum_'' @ release @ ''.txt'') in
      io_bind (open_for_writing E hfile) (\<lambda>f.
        block
          [for_each
             (\<lambda>plat. for_each (\<lambda>pack. write_hash E path pack plat) [''solvers'', ''lib''])
             (base_platforms E),
           for_each
             (\<lambda>plat. for_each
                (\<lambda>(pack, sp). if plat \<notin> set sp then io_return () else write_hash E path pack plat)
                (extra_binaries E))
             (base_platforms E)]))"

text \<open>The text that a run has written to the file it opened: its writes, concatenated.\<close>

fun written :: "event list \<Rightarrow> string" where
  "written [] = []"
| "written (FileWrite s # evs) = s @ written evs"
| "written (ev # evs) = written evs"

text \<open>
  The order of the manifest as the specification words it: every platform of the
  catalogue with the two base packages, solvers before lib; after all of those, every
  platform again with the extras that declare it.
\<close>

definition manifest_order :: "string list \<Rightarrow> (string \<times> string list) list \<Rightarrow> (string \<times> string) list" where
  "manifest_order platforms extras =
     concat (map (\<lambda>plat. [(''solvers'', plat), (''lib'', plat)]) platforms)
     @ concat (map (\<lambda>plat. map (\<lambda>(pack, sp). (pack, plat))
                              (filter (\<lambda>(pack, sp). plat \<in> set sp) extras)) platforms)"

subsection \<open>The commands \<^verbatim>\<open>bin-platform\<close>, \<^verbatim>\<open>extensions-license\<close>, \<^verbatim>\<open>extensions-version\<close>\<close>

text \<open>
  The handler of \<^verbatim>\<open>bin_platform\<close> reads the local variable \<^verbatim>\<open>platform\<close>, which is bound
  only once \<^verbatim>\<open>_get_arch_and_platform\<close> has returned: \<open>None\<close> is the unbound variable, and
  reading it raises \<^verbatim>\<open>UnboundLocalError\<close>.
\<close>

definition bin_platform_handler :: "string option \<Rightarrow> unit io" where
  "bin_platform_handler platform =
     (case platform of
        None \<Rightarrow> io_raise (UnboundLocalError ''platform'')
      | Some p \<Rightarrow>
          echo (''No supported binaries found for '' @ p @ ''. ''
                @ ''Use the command 'idaes get-extensions --info' to see supported platforms''))"

definition bin_platform :: "'fd env \<Rightarrow> string \<Rightarrow> unit io" where
  "bin_platform E distro =
     io_bind (call (get_file_downloader E)) (\<lambda>fd.
       case get_arch_and_platform E fd distro of
         Inl (UnsupportedPlatformError m) \<Rightarrow> bin_platform_handler None
       | Inl e \<Rightarrow> io_raise e
       | Inr platform \<Rightarrow>
           (case get_release_platform E platform of
              Inl (UnsupportedPlatformError m) \<Rightarrow> bin_platform_handler (Some platform)
            | Inl e \<Rightarrow> io_raise e
            | Inr rp \<Rightarrow> echo rp))"

definition extensions_license :: "'fd env \<Rightarrow> unit io" where
  "extensions_license E = io_bind (print_license E) (\<lambda>_. io_return ())"

definition extensions_version :: "'fd env \<Rightarrow> unit io" where
  "extensions_version E =
     io_bind (print_extensions_version E False None) (\<lambda>_. io_return ())"

subsection \<open>Traces that consist of output only\<close>

definition is_echo :: "event \<Rightarrow> bool" where
  "is_echo ev = (case ev of Echo s \<Rightarrow> True | _ \<Rightarrow> False)"

definition only_echo :: "'a io \<Rightarrow> bool" where
  "only_echo m = list_all is_echo (fst m)"

subsection \<open>A sample environment\<close>

text \<open>
  A small catalogue in the shape of the one \<^verbatim>\<open>idaes.config\<close> holds, a machine that
  reports \<open>ubuntu2004\<close> on \<open>amd64\<close>, and an installation directory with no files in it.
  The closed instances below are evaluated on it.
\<close>

definition sample_distro_map :: "(string \<times> string) list" where
  "sample_distro_map =
     [(''macos'', ''darwin''), (''rhel7'', ''el7''), (''centos7'', ''el7''),
      (''ubuntu2004'', ''ubuntu2004''), (''win64'', ''windows'')]"

definition sample_arch_map :: "(string \<times> string) list" where
  "sample_arch_map =
     [(''amd64'', ''x86_64''), (''x64'', ''x86_64''), (''arm64'', ''aarch64'')]"

definition sample_platforms :: "string list" where
  "sample_platforms = [''darwin-aarch64'', ''el7-x86_64'', ''ubuntu2004-x86_64'']"

definition sample_env :: "unit env" where
  "sample_env =
     \<lparr>base_platforms = sample_platforms,
      binary_distro_map = sample_distro_map,
      binary_arch_map = sample_arch_map,
      extra_binaries = [(''petsc'', [''el7-x86_64'', ''ubuntu2004-x86_64''])],
      default_binary_release = Some ''3.4.2'',
      canonical_distro = (\<lambda>d. case map_of sample_distro_map d of Some c \<Rightarrow> c | None \<Rightarrow> d),
      canonical_arch = (\<lambda>a. case map_of sample_arch_map a of Some c \<Rightarrow> c | None \<Rightarrow> a),
      bin_directory = ''/opt/idaes/bin'',
      get_file_downloader = Inr (),
      get_arch_and_platform = (\<lambda>fd distro. Inr (if distro = ''auto'' then ''ubuntu2004'' else distro)),
      get_release_platform =
        (\<lambda>p. if p = ''ubuntu2004'' then Inr ''ubuntu2004-x86_64''
             else Inl (UnsupportedPlatformError (''Unsupported platform: '' @ p))),
      machine = ''amd64'',
      download_binaries = (\<lambda>args. Inr [(''release'', ''3.4.2'')]),
      hash_file_sha256 = (\<lambda>p. Inr (''h:'' @ p)),
      open_read = (\<lambda>p. Inl FileNotFoundError),
      open_write = (\<lambda>p. Inr ())\<rparr>"

definition sample_options :: options where
  "sample_options =
     \<lparr>opt_release = None, opt_url = None, opt_insecure = False, opt_cacert = None,
      opt_verbose = False, opt_distro = ''auto'', opt_nochecksum = False,
      opt_library_only = False, opt_no_download = False, opt_info = False,
      opt_extras_only = False, opt_extra = [], opt_to = None\<rparr>"

text \<open>
  The same machine asked for a distribution that no build exists for: the download
  collaborator raises \<^verbatim>\<open>UnsupportedPlatformError\<close>.
\<close>

definition plan9_env :: "unit env" where
  "plan9_env = sample_env\<lparr>download_binaries :=
      (\<lambda>args. Inl (UnsupportedPlatformError ''Unsupported platform: plan9-mips''))\<rparr>"

definition plan9_options :: options where
  "plan9_options = sample_options\<lparr>opt_release := Some ''3.4.2'', opt_distro := ''plan9''\<rparr>"

definition both_options :: options where
  "both_options =
     sample_options\<lparr>opt_release := Some ''3.4.2'', opt_url := Some ''https://example.org/bin''\<rparr>"

definition info_options :: options where
  "info_options = sample_options\<lparr>opt_info := True, opt_url := Some ''https://example.org/bin''\<rparr>"

text \<open>The same machine with a probe that raises, and with an architecture no build exists for.\<close>

definition no_probe_env :: "unit env" where
  "no_probe_env = sample_env\<lparr>get_arch_and_platform :=
      (\<lambda>fd distro. Inl (UnsupportedPlatformError ''Unsupported platform''))\<rparr>"

definition mips_env :: "unit env" where
  "mips_env = sample_env\<lparr>machine := ''mips''\<rparr>"


text \<open>The sample with a release directory that does not exist.\<close>

definition no_dir_env :: "unit env" where
  "no_dir_env = sample_env\<lparr>open_write := (\<lambda>p. Inl FileNotFoundError)\<rparr>"


subsection \<open>Laws of the command monad\<close>

named_theorems io_simps

lemma io_seq_ok [io_simps]: "io_seq (t, Inr ()) n = (t @ fst n, snd n)"
  by (cases n) (simp add: io_seq_def)

lemma io_seq_err [io_simps]: "io_seq (t, Inl e) n = (t, Inl e)"
  by (simp add: io_seq_def)

lemma io_seq_echo [io_simps]: "io_seq (echo s) n = (Echo s # fst n, snd n)"
  by (simp add: echo_def io_seq_ok)

lemma io_seq_return [io_simps]: "io_seq (io_return ()) n = n"
  by (simp add: io_return_def io_seq_ok)

lemma io_seq_raise [io_simps]: "io_seq (io_raise e) n = io_raise e"
  by (simp add: io_raise_def io_seq_err)

lemma io_bind_call_ok [io_simps]: "io_bind (call (Inr x)) f = f x"
  by (simp add: call_def split: prod.splits)

lemma io_bind_call_err [io_simps]: "io_bind (call (Inl e)) f = io_raise e"
  by (simp add: call_def io_raise_def)

lemma io_bind_return [io_simps]: "io_bind (io_return x) f = f x"
  by (simp add: io_return_def split: prod.splits)

lemma io_seq_return_right: "io_seq m (io_return ()) = m"
  by (cases m; cases "snd m") (auto simp: io_seq_ok io_seq_err io_return_def)

lemma io_bind_ok: "io_bind (t, Inr x) f = (t @ fst (f x), snd (f x))"
  by (cases "f x") simp

lemma io_seq_cases:
  "io_seq m n = (case snd m of Inl e \<Rightarrow> (fst m, Inl e) | Inr u \<Rightarrow> (fst m @ fst n, snd n))"
  by (cases m; cases "snd m") (auto simp: io_seq_ok io_seq_err)

lemma io_seq_assoc: "io_seq (io_seq a b) c = io_seq a (io_seq b c)"
  by (simp add: io_seq_cases split: sum.splits)

lemma for_each_append:
  "for_each body (xs @ ys) = io_seq (for_each body xs) (for_each body ys)"
  by (induction xs) (simp_all add: io_seq_assoc io_seq_return)

lemma for_each_concat:
  "for_each (\<lambda>x. for_each body (f x)) xs = for_each body (concat (map f xs))"
  by (induction xs) (simp_all add: for_each_append)

lemma for_each_echo: "for_each (\<lambda>x. echo (f x)) xs = (map (\<lambda>x. Echo (f x)) xs, Inr ())"
  by (induction xs) (simp_all add: io_return_def io_seq_echo)



subsection \<open>Commands that only print\<close>

lemma only_echo_echo [simp]: "only_echo (echo s)"
  by (simp add: only_echo_def echo_def is_echo_def)

lemma only_echo_return [simp]: "only_echo (io_return x)"
  by (simp add: only_echo_def io_return_def)

lemma only_echo_raise [simp]: "only_echo (io_raise e)"
  by (simp add: only_echo_def io_raise_def)

lemma only_echo_call [simp]: "only_echo (call r)"
  by (simp add: only_echo_def call_def)

lemma only_echo_bind:
  "only_echo m \<Longrightarrow> (\<And>x. only_echo (f x)) \<Longrightarrow> only_echo (io_bind m f)"
proof (cases m)
  case (Pair t r)
  assume "only_echo m" and f: "\<And>x. only_echo (f x)"
  with Pair have t: "list_all is_echo t" by (simp add: only_echo_def)
  show ?thesis
  proof (cases r)
    case (Inl e)
    with Pair t show ?thesis by (simp add: only_echo_def)
  next
    case (Inr x)
    from f [of x] have "list_all is_echo (fst (f x))" by (simp add: only_echo_def)
    with Pair Inr t show ?thesis by (cases "f x") (simp add: only_echo_def)
  qed
qed

lemma only_echo_seq: "only_echo m \<Longrightarrow> only_echo n \<Longrightarrow> only_echo (io_seq m n)"
  by (simp add: io_seq_def only_echo_bind)

lemma only_echo_for_each: "(\<And>x. only_echo (body x)) \<Longrightarrow> only_echo (for_each body xs)"
  by (induction xs) (simp_all add: only_echo_seq)

lemma only_echo_header [simp]: "only_echo (print_header title)"
  by (simp add: print_header_def only_echo_seq)

lemma only_echo_footer [simp]: "only_echo print_footer"
  by (simp add: print_footer_def only_echo_seq)

lemma only_echo_read_version [simp]: "only_echo (read_version E v)"
  by (simp add: read_version_def split: sum.splits error.splits)

lemma only_echo_version [simp]: "only_echo (print_extensions_version E lib_only d)"
  by (simp add: print_extensions_version_def Let_def only_echo_seq only_echo_bind)

lemma only_echo_aliases [simp]: "only_echo (print_aliases name data)"
  by (simp add: print_aliases_def Let_def only_echo_seq only_echo_for_each)

lemma only_echo_catalog [simp]: "only_echo (print_catalog E)"
  by (simp add: print_catalog_def only_echo_seq only_echo_for_each)

lemma only_echo_system [simp]: "only_echo (print_system E platform arch)"
  by (simp add: print_system_def Let_def only_echo_seq)

lemma only_echo_build_info [simp]: "only_echo (print_build_info E)"
  by (simp add: print_build_info_def only_echo_seq only_echo_bind)

lemma only_echo_no_download: "only_echo m \<Longrightarrow> DownloadBinaries a \<notin> set (fst m)"
  by (auto simp: only_echo_def list_all_iff is_echo_def)


subsection \<open>\<^verbatim>\<open>get-extensions\<close>: the choice of the source\<close>

text \<open>
  Claim C2. When both a release and a URL are given and \<^verbatim>\<open>--info\<close> is not, the command
  prints the one line that reports the conflict and returns normally: the trace holds
  nothing else, so \<^verbatim>\<open>download_binaries\<close> is not called, and the result is a value, not an
  exception, so nothing makes the process exit with an error.
\<close>

theorem get_extensions_conflict:
  assumes "\<not> opt_info opts" and "opt_release opts = Some r" and "opt_url opts = Some u"
  shows "get_extensions E opts =
           ([Echo ''\<newline>* You must provide either a release or url not both.''], Inr ())
         \<and> (\<forall>a. DownloadBinaries a \<notin> set (fst (get_extensions E opts)))"
  using assms by (simp add: get_extensions_def echo_def)

theorem get_extensions_conflict_witness:
  "\<not> opt_info both_options
   \<and> opt_release both_options = Some ''3.4.2''
   \<and> opt_url both_options = Some ''https://example.org/bin''
   \<and> get_extensions sample_env both_options =
       ([Echo ''\<newline>* You must provide either a release or url not both.''], Inr ())"
proof -
  have h1: "\<not> opt_info both_options"
    by (simp add: both_options_def sample_options_def)
  have h2: "opt_release both_options = Some ''3.4.2''"
    by (simp add: both_options_def)
  have h3: "opt_url both_options = Some ''https://example.org/bin''"
    by (simp add: both_options_def)
  from get_extensions_conflict [OF h1 h2 h3, of sample_env] h1 h2 h3 show ?thesis by blast
qed

text \<open>The download branch calls \<^verbatim>\<open>download_binaries\<close> once, with the arguments built from the options.\<close>

lemma get_files_events:
  assumes "DownloadBinaries a \<in> set (fst (get_files E opts release))"
  shows "a = download_call_args opts release"
proof (cases "download_binaries E (download_call_args opts release)")
  case (Inl e)
  with assms show ?thesis
    by (cases e)
       (auto simp: get_files_def call_download_binaries_def io_simps echo_def io_return_def)
next
  case (Inr d)
  have 1: "only_echo (for_each (\<lambda>(k, i). echo (ljust 14 k @ '': '' @ i)) d)"
    by (rule only_echo_for_each) (simp split: prod.splits)
  have 2: "only_echo (io_bind (print_extensions_version E (opt_library_only opts) (opt_to opts))
                 (\<lambda>_. io_return ()))"
    by (simp add: only_echo_bind)
  from assms Inr 1 2 show ?thesis
    by (auto simp: get_files_def call_download_binaries_def io_simps
        dest: only_echo_no_download split: if_splits)
qed

lemma get_files_unsupported:
  "download_binaries E (download_call_args opts release) = Inl (UnsupportedPlatformError msg) \<Longrightarrow>
   get_files E opts release =
     ([Echo ''Getting files...'', DownloadBinaries (download_call_args opts release),
       Echo [], Echo msg, Echo [], Echo guidance], Inr ())"
  by (simp add: get_files_def call_download_binaries_def io_simps io_return_def)

lemma get_files_release_option:
  "get_files E (opts\<lparr>opt_release := x\<rparr>) release = get_files E opts release"
proof -
  have args: "download_call_args (opts\<lparr>opt_release := x\<rparr>) release =
              download_call_args opts release"
    by (simp add: download_call_args_def)
  show ?thesis
  proof (cases "download_binaries E (download_call_args opts release)")
    case (Inl e)
    then show ?thesis
      by (cases e) (simp_all add: get_files_def args call_download_binaries_def)
  next
    case (Inr d)
    then show ?thesis
      by (simp add: get_files_def args call_download_binaries_def)
  qed
qed

text \<open>
  Claim C3, as the code has it. With neither a release nor a URL given and \<^verbatim>\<open>--info\<close> not
  set, the command takes the configured default release and behaves exactly as if that
  release had been given, so it calls \<^verbatim>\<open>download_binaries\<close>; only when no default release
  is configured does it print the line asking for a download URL and download nothing.
\<close>

theorem get_extensions_neither:
  assumes "\<not> opt_info opts" and "opt_release opts = None" and "opt_url opts = None"
  shows "(default_binary_release E = None \<longrightarrow>
            get_extensions E opts =
              ([Echo ''\<newline>* You must provide a download URL for IDAES binary files.''], Inr ()))
         \<and> (\<forall>r. default_binary_release E = Some r \<longrightarrow>
              get_extensions E opts = get_extensions E (opts\<lparr>opt_release := Some r\<rparr>)
              \<and> DownloadBinaries (download_call_args opts (Some r))
                  \<in> set (fst (get_extensions E opts)))"
proof -
  have a: "default_binary_release E = None \<longrightarrow>
            get_extensions E opts =
              ([Echo ''\<newline>* You must provide a download URL for IDAES binary files.''], Inr ())"
    using assms by (simp add: get_extensions_def echo_def)
  have b: "get_extensions E opts = get_extensions E (opts\<lparr>opt_release := Some r\<rparr>)"
    if "default_binary_release E = Some r" for r
  proof -
    have "get_extensions E opts = get_files E opts (Some r)"
      using assms that by (simp add: get_extensions_def)
    moreover have "get_extensions E (opts\<lparr>opt_release := Some r\<rparr>) =
                   get_files E (opts\<lparr>opt_release := Some r\<rparr>) (Some r)"
      using assms by (simp add: get_extensions_def Let_def)
    ultimately show ?thesis by (simp add: get_files_release_option)
  qed
  have c: "DownloadBinaries (download_call_args opts (Some r)) \<in> set (fst (get_extensions E opts))"
    if "default_binary_release E = Some r" for r
  proof -
    have "get_extensions E opts = get_files E opts (Some r)"
      using assms that by (simp add: get_extensions_def)
    then show ?thesis
      by (cases "download_binaries E (download_call_args opts (Some r))")
         (auto simp: get_files_def call_download_binaries_def io_simps split: error.splits)
  qed
  from a b c show ?thesis by blast
qed

theorem get_extensions_neither_witness:
  "\<not> opt_info sample_options \<and> opt_release sample_options = None
   \<and> opt_url sample_options = None
   \<and> default_binary_release sample_env = Some ''3.4.2''
   \<and> get_extensions sample_env sample_options =
       get_extensions sample_env (sample_options\<lparr>opt_release := Some ''3.4.2''\<rparr>)
   \<and> DownloadBinaries (download_call_args sample_options (Some ''3.4.2''))
       \<in> set (fst (get_extensions sample_env sample_options))"
proof -
  have h1: "\<not> opt_info sample_options" by (simp add: sample_options_def)
  have h2: "opt_release sample_options = None" by (simp add: sample_options_def)
  have h3: "opt_url sample_options = None" by (simp add: sample_options_def)
  have h4: "default_binary_release sample_env = Some ''3.4.2''" by (simp add: sample_env_def)
  from get_extensions_neither [OF h1 h2 h3, of sample_env] h1 h2 h3 h4 show ?thesis by blast
qed

text \<open>
  The claim as the specification words it fails on the sample environment: no option
  names a source, and the command downloads release \<open>3.4.2\<close> and reports the installed
  versions; no line about a user error is printed.
\<close>

theorem get_extensions_neither_counterexample:
  "opt_release sample_options = None \<and> opt_url sample_options = None
   \<and> \<not> opt_info sample_options
   \<and> get_extensions sample_env sample_options =
     ([Echo ''Getting files...'',
       DownloadBinaries (download_call_args sample_options (Some ''3.4.2'')),
       Echo ''Done'',
       Echo (replicate 65 CHR ''-''),
       Echo ''IDAES Extensions Build Versions'',
       Echo (replicate 65 CHR ''=''),
       Echo ''Solvers:  vno version file found'',
       Echo ''Library:  vno version file found'',
       Echo [],
       Echo (replicate 65 CHR ''='')], Inr ())"
  by (simp add: get_extensions_def get_files_def call_download_binaries_def
      print_extensions_version_def print_header_def print_footer_def read_version_def
      sample_env_def sample_options_def io_simps io_return_def os_path_join_def)

subsection \<open>\<^verbatim>\<open>get-extensions\<close>: an unsupported platform\<close>

text \<open>
  Claim C4. In every run of the command that calls \<^verbatim>\<open>download_binaries\<close> with arguments
  for which it raises \<^verbatim>\<open>UnsupportedPlatformError\<close>, the exception is caught: the command
  returns normally, having printed an empty line, the message of the exception, an empty
  line and the guidance, which names the command with \<^verbatim>\<open>--distro <os>\<close> and the command
  with \<^verbatim>\<open>--info\<close>.
\<close>

theorem get_extensions_unsupported_platform:
  assumes "DownloadBinaries a \<in> set (fst (get_extensions E opts))"
      and "download_binaries E a = Inl (UnsupportedPlatformError msg)"
  shows "get_extensions E opts =
           ([Echo ''Getting files...'', DownloadBinaries a,
             Echo [], Echo msg, Echo [], Echo guidance], Inr ())
         \<and> guidance =
             ''Use the command 'idaes get-extensions --distro <os>' to specify an OS distribution\<newline>''
             @ ''Use the command 'idaes get-extensions --info' to see supported platforms''"
proof -
  let ?release = "if opt_url opts = None \<and> opt_release opts = None
                  then default_binary_release E else opt_release opts"
  have no: "\<not> opt_info opts"
  proof
    assume "opt_info opts"
    then have "only_echo (get_extensions E opts)" by (simp add: get_extensions_def)
    with assms(1) show False by (simp add: only_echo_no_download)
  qed
  have branch: "get_extensions E opts = get_files E opts ?release"
    using assms(1) no by (auto simp: get_extensions_def Let_def echo_def split: if_splits)
  with assms(1) have "a = download_call_args opts ?release"
    by (simp add: get_files_events)
  with assms(2) branch have "get_extensions E opts =
           ([Echo ''Getting files...'', DownloadBinaries a,
             Echo [], Echo msg, Echo [], Echo guidance], Inr ())"
    by (simp add: get_files_unsupported)
  moreover have "guidance =
             ''Use the command 'idaes get-extensions --distro <os>' to specify an OS distribution\<newline>''
             @ ''Use the command 'idaes get-extensions --info' to see supported platforms''"
    by (simp add: guidance_def cmd_name_def)
  ultimately show ?thesis by blast
qed

theorem get_extensions_unsupported_platform_witness:
  "download_binaries plan9_env (download_call_args plan9_options (Some ''3.4.2'')) =
     Inl (UnsupportedPlatformError ''Unsupported platform: plan9-mips'')
   \<and> get_extensions plan9_env plan9_options =
     ([Echo ''Getting files...'',
       DownloadBinaries (download_call_args plan9_options (Some ''3.4.2'')),
       Echo [], Echo ''Unsupported platform: plan9-mips'', Echo [], Echo guidance], Inr ())"
proof -
  let ?a = "download_call_args plan9_options (Some ''3.4.2'')"
  have run: "fst (get_extensions plan9_env plan9_options) =
     [Echo ''Getting files...'', DownloadBinaries ?a,
       Echo [], Echo ''Unsupported platform: plan9-mips'', Echo [], Echo guidance]"
    by (simp add: get_extensions_def get_files_def call_download_binaries_def plan9_env_def
        plan9_options_def sample_env_def sample_options_def download_call_args_def
        io_simps io_return_def)
  have h1: "DownloadBinaries ?a \<in> set (fst (get_extensions plan9_env plan9_options))"
    by (simp add: run)
  have h2: "download_binaries plan9_env ?a =
              Inl (UnsupportedPlatformError ''Unsupported platform: plan9-mips'')"
    by (simp add: plan9_env_def)
  from get_extensions_unsupported_platform [OF h1 h2] h2 show ?thesis by blast
qed

subsection \<open>\<^verbatim>\<open>print_extensions_version\<close> and \<^verbatim>\<open>print_license\<close>: missing files\<close>

lemma print_header_run:
  "print_header title =
     ([Echo (replicate 65 CHR ''-''), Echo (''IDAES Extensions '' @ title),
       Echo (replicate 65 CHR ''='')], Inr ())"
  by (simp add: print_header_def io_simps io_return_def)

lemma print_footer_run: "print_footer = ([Echo [], Echo (replicate 65 CHR ''='')], Inr ())"
  by (simp add: print_footer_def io_simps io_return_def)

lemma read_version_run:
  assumes "\<forall>e. open_read E v = Inl e \<longrightarrow> e = FileNotFoundError"
  shows "read_version E v =
           io_return (case open_read E v of Inr text \<Rightarrow> strip (readline text)
                      | Inl e \<Rightarrow> ''no version file found'')"
  using assms by (cases "open_read E v") (auto simp: read_version_def)

text \<open>
  Claim C6. A version or license file that is absent is not an error. When opening each
  version file either succeeds or fails with \<^verbatim>\<open>FileNotFoundError\<close>,
  \<^verbatim>\<open>print_extensions_version\<close> prints the header, the entry of the solvers (unless only
  the library is asked for), the entry of the library and the footer, and returns 0; the
  entry of an absent file carries \<open>no version file found\<close> in place of the version. When
  \<^verbatim>\<open>license.txt\<close> is absent, \<^verbatim>\<open>print_license\<close> prints the line \<open>no license file found\<close>
  between header and footer and returns 0.
\<close>

theorem missing_metadata_files:
  "((lib_only \<or> (\<forall>e. open_read E (os_path_join d ''version_solvers.txt'') = Inl e
                        \<longrightarrow> e = FileNotFoundError))
     \<and> (\<forall>e. open_read E (os_path_join d ''version_lib.txt'') = Inl e \<longrightarrow> e = FileNotFoundError)
     \<and> d = (case bin_dir_arg of None \<Rightarrow> bin_directory E | Some b \<Rightarrow> b)
    \<longrightarrow> print_extensions_version E lib_only bin_dir_arg =
         ([Echo (replicate 65 CHR ''-''), Echo ''IDAES Extensions Build Versions'',
           Echo (replicate 65 CHR ''='')]
          @ (if lib_only then []
             else [Echo (''Solvers:  v'' @
                     (case open_read E (os_path_join d ''version_solvers.txt'') of
                        Inr text \<Rightarrow> strip (readline text)
                      | Inl e \<Rightarrow> ''no version file found''))])
          @ [Echo (''Library:  v'' @
                     (case open_read E (os_path_join d ''version_lib.txt'') of
                        Inr text \<Rightarrow> strip (readline text)
                      | Inl e \<Rightarrow> ''no version file found'')),
             Echo [], Echo (replicate 65 CHR ''='')],
          Inr 0))
   \<and> (open_read E (os_path_join (bin_directory E) ''license.txt'') = Inl FileNotFoundError
    \<longrightarrow> print_license E =
         ([Echo (replicate 65 CHR ''-''), Echo ''IDAES Extensions License Information'',
           Echo (replicate 65 CHR ''=''),
           Echo ''no license file found'', Echo [],
           Echo [], Echo (replicate 65 CHR ''='')],
          Inr 0))"
proof (intro conjI impI)
  assume h: "(lib_only \<or> (\<forall>e. open_read E (os_path_join d ''version_solvers.txt'') = Inl e
                        \<longrightarrow> e = FileNotFoundError))
     \<and> (\<forall>e. open_read E (os_path_join d ''version_lib.txt'') = Inl e \<longrightarrow> e = FileNotFoundError)
     \<and> d = (case bin_dir_arg of None \<Rightarrow> bin_directory E | Some b \<Rightarrow> b)"
  then have lib: "read_version E (os_path_join d ''version_lib.txt'') =
           io_return (case open_read E (os_path_join d ''version_lib.txt'') of
                        Inr text \<Rightarrow> strip (readline text) | Inl e \<Rightarrow> ''no version file found'')"
    by (simp add: read_version_run)
  from h have d: "(case bin_dir_arg of None \<Rightarrow> bin_directory E | Some b \<Rightarrow> b) = d" by simp
  show "print_extensions_version E lib_only bin_dir_arg =
         ([Echo (replicate 65 CHR ''-''), Echo ''IDAES Extensions Build Versions'',
           Echo (replicate 65 CHR ''='')]
          @ (if lib_only then []
             else [Echo (''Solvers:  v'' @
                     (case open_read E (os_path_join d ''version_solvers.txt'') of
                        Inr text \<Rightarrow> strip (readline text)
                      | Inl e \<Rightarrow> ''no version file found''))])
          @ [Echo (''Library:  v'' @
                     (case open_read E (os_path_join d ''version_lib.txt'') of
                        Inr text \<Rightarrow> strip (readline text)
                      | Inl e \<Rightarrow> ''no version file found'')),
             Echo [], Echo (replicate 65 CHR ''='')],
          Inr 0)"
  proof (cases lib_only)
    case True
    then show ?thesis
      by (simp add: print_extensions_version_def d lib print_header_run print_footer_run
          io_simps io_return_def)
  next
    case False
    with h have "read_version E (os_path_join d ''version_solvers.txt'') =
           io_return (case open_read E (os_path_join d ''version_solvers.txt'') of
                        Inr text \<Rightarrow> strip (readline text) | Inl e \<Rightarrow> ''no version file found'')"
      by (simp add: read_version_run)
    with False show ?thesis
      by (simp add: print_extensions_version_def d lib print_header_run print_footer_run
          io_simps io_return_def)
  qed
next
  assume "open_read E (os_path_join (bin_directory E) ''license.txt'') = Inl FileNotFoundError"
  then show "print_license E =
         ([Echo (replicate 65 CHR ''-''), Echo ''IDAES Extensions License Information'',
           Echo (replicate 65 CHR ''=''),
           Echo ''no license file found'', Echo [],
           Echo [], Echo (replicate 65 CHR ''='')],
          Inr 0)"
    by (simp add: print_license_def print_header_run print_footer_run io_simps io_return_def)
qed


theorem missing_metadata_files_witness:
  "open_read sample_env (os_path_join ''/opt/idaes/bin'' ''version_solvers.txt'') = Inl FileNotFoundError
   \<and> open_read sample_env (os_path_join ''/opt/idaes/bin'' ''version_lib.txt'') = Inl FileNotFoundError
   \<and> open_read sample_env (os_path_join (bin_directory sample_env) ''license.txt'') = Inl FileNotFoundError
   \<and> print_extensions_version sample_env False None =
         ([Echo (replicate 65 CHR ''-''), Echo ''IDAES Extensions Build Versions'',
           Echo (replicate 65 CHR ''=''),
           Echo ''Solvers:  vno version file found'',
           Echo ''Library:  vno version file found'',
           Echo [], Echo (replicate 65 CHR ''='')], Inr 0)
   \<and> print_license sample_env =
         ([Echo (replicate 65 CHR ''-''), Echo ''IDAES Extensions License Information'',
           Echo (replicate 65 CHR ''=''),
           Echo ''no license file found'', Echo [],
           Echo [], Echo (replicate 65 CHR ''='')], Inr 0)"
proof -
  have o: "\<And>p. open_read sample_env p = Inl FileNotFoundError"
    by (simp add: sample_env_def)
  have d: "''/opt/idaes/bin'' = (case None of None \<Rightarrow> bin_directory sample_env | Some b \<Rightarrow> b)"
    by (simp add: sample_env_def)
  from missing_metadata_files [of False sample_env "''/opt/idaes/bin''" None] o d
  show ?thesis by simp
qed


subsection \<open>\<^verbatim>\<open>bin-platform\<close>: the handler and the unbound variable\<close>

text \<open>
  Claim C9. When \<^verbatim>\<open>_get_arch_and_platform\<close> itself raises \<^verbatim>\<open>UnsupportedPlatformError\<close>,
  the handler reads \<^verbatim>\<open>platform\<close> before anything was assigned to it: the command prints
  nothing and ends in \<^verbatim>\<open>UnboundLocalError\<close>, so the fallback message is not produced.
  When the exception comes from \<^verbatim>\<open>_get_release_platform\<close>, \<^verbatim>\<open>platform\<close> is bound, and the
  handler prints the fallback message with it and the command returns normally.
\<close>

theorem bin_platform_unbound_local:
  assumes "get_file_downloader E = Inr fd"
  shows "(\<forall>m. get_arch_and_platform E fd distro = Inl (UnsupportedPlatformError m) \<longrightarrow>
            bin_platform E distro = ([], Inl (UnboundLocalError ''platform'')))
         \<and> (\<forall>p m. get_arch_and_platform E fd distro = Inr p
                  \<and> get_release_platform E p = Inl (UnsupportedPlatformError m) \<longrightarrow>
            bin_platform E distro =
              ([Echo (''No supported binaries found for '' @ p @ ''. ''
                      @ ''Use the command 'idaes get-extensions --info' to see supported platforms'')],
               Inr ()))"
  using assms
  by (simp add: bin_platform_def bin_platform_handler_def io_simps io_raise_def echo_def)

theorem bin_platform_unbound_local_witness:
  "get_file_downloader no_probe_env = Inr ()
   \<and> get_arch_and_platform no_probe_env () ''auto'' = Inl (UnsupportedPlatformError ''Unsupported platform'')
   \<and> bin_platform no_probe_env ''auto'' = ([], Inl (UnboundLocalError ''platform''))
   \<and> get_file_downloader sample_env = Inr ()
   \<and> get_arch_and_platform sample_env () ''plan9'' = Inr ''plan9''
   \<and> get_release_platform sample_env ''plan9'' =
        Inl (UnsupportedPlatformError ''Unsupported platform: plan9'')
   \<and> bin_platform sample_env ''plan9'' =
        ([Echo (''No supported binaries found for plan9. ''
                @ ''Use the command 'idaes get-extensions --info' to see supported platforms'')],
         Inr ())"
proof -
  have a1: "get_file_downloader no_probe_env = Inr ()"
    by (simp add: no_probe_env_def sample_env_def)
  have a2: "get_arch_and_platform no_probe_env () ''auto'' =
              Inl (UnsupportedPlatformError ''Unsupported platform'')"
    by (simp add: no_probe_env_def)
  have b1: "get_file_downloader sample_env = Inr ()"
    by (simp add: sample_env_def)
  have b2: "get_arch_and_platform sample_env () ''plan9'' = Inr ''plan9''"
    by (simp add: sample_env_def)
  have b3: "get_release_platform sample_env ''plan9'' =
              Inl (UnsupportedPlatformError ''Unsupported platform: plan9'')"
    by (simp add: sample_env_def)
  from bin_platform_unbound_local [OF a1, of "''auto''"] a2
  have A: "bin_platform no_probe_env ''auto'' = ([], Inl (UnboundLocalError ''platform''))"
    by blast
  from bin_platform_unbound_local [OF b1, of "''plan9''"] b2 b3
  have B: "bin_platform sample_env ''plan9'' =
        ([Echo (''No supported binaries found for plan9. ''
                @ ''Use the command 'idaes get-extensions --info' to see supported platforms'')],
         Inr ())"
    by simp
  from a1 a2 A b1 b2 b3 B show ?thesis by blast
qed


subsection \<open>\<^verbatim>\<open>print_build_info\<close>: the report on the current system\<close>

lemma rmap_append_nonempty: "rmap_append m v k \<noteq> []"
  by (cases m) (auto split: if_splits)

lemma foldl_rmap_nonempty:
  "m \<noteq> [] \<Longrightarrow> foldl (\<lambda>m (k, v). rmap_append m v k) m data \<noteq> []"
proof (induction data arbitrary: m)
  case Nil
  then show ?case by simp
next
  case (Cons x xs)
  obtain k v where x: "x = (k, v)" by (cases x)
  have "rmap_append m v k \<noteq> []" by (rule rmap_append_nonempty)
  then have "foldl (\<lambda>m (k, v). rmap_append m v k) (rmap_append m v k) xs \<noteq> []"
    by (rule Cons.IH)
  then show ?case by (simp add: x)
qed

lemma build_rmap_nonempty: "data \<noteq> [] \<Longrightarrow> build_rmap data \<noteq> []"
proof (cases data)
  case Nil
  assume "data \<noteq> []"
  with Nil show ?thesis by simp
next
  case (Cons x xs)
  obtain k v where x: "x = (k, v)" by (cases x)
  have "foldl (\<lambda>m (k, v). rmap_append m v k) (rmap_append [] v k) xs \<noteq> []"
    by (rule foldl_rmap_nonempty) (rule rmap_append_nonempty)
  with Cons x show ?thesis by (simp add: build_rmap_def)
qed

lemma snd_io_seq: "snd m = Inr () \<Longrightarrow> snd (io_seq m n) = snd n"
  by (simp add: io_seq_cases)

lemma snd_echo: "snd (echo s) = Inr ()"
  by (simp add: echo_def)

lemma snd_for_each_echo: "snd (for_each (\<lambda>x. echo (f x)) xs) = Inr ()"
  by (simp add: for_each_echo)

lemma snd_print_header: "snd (print_header title) = Inr ()"
  by (simp add: print_header_def snd_io_seq snd_echo io_return_def)

lemma print_aliases_ok: "data \<noteq> [] \<Longrightarrow> snd (print_aliases name data) = Inr ()"
  by (simp add: print_aliases_def Let_def build_rmap_nonempty snd_io_seq snd_echo
      snd_for_each_echo)

lemma print_catalog_ok:
  "binary_distro_map E \<noteq> [] \<Longrightarrow> binary_arch_map E \<noteq> [] \<Longrightarrow> snd (print_catalog E) = Inr ()"
  by (simp add: print_catalog_def snd_io_seq snd_echo snd_for_each_echo snd_print_header
      print_aliases_ok io_return_def)

text \<open>
  Claim C7. Once the downloader and the probe have answered and both alias tables are
  non-empty, \<^verbatim>\<open>print_build_info\<close> ends with the report on the current system: the build
  identifier is the canonical distribution, the separator \<open>-\<close> and the canonical
  architecture; the line \<open>Use build: <id>\<close> is printed if the identifier is in
  \<open>base_platforms\<close>, and the line about an unsupported combination otherwise; the raw
  platform and the raw architecture are each followed by \<open> -> <canonical>\<close> exactly when
  canonicalisation changed them.
\<close>

theorem print_build_info_system:
  assumes "get_file_downloader E = Inr fd"
      and "binary_distro_map E \<noteq> []" and "binary_arch_map E \<noteq> []"
      and "get_arch_and_platform E fd ''auto'' = Inr platform"
      and "to_platform = canonical_distro E platform"
      and "to_mach = canonical_arch E (machine E)"
      and "to_build = to_platform @ ''-'' @ to_mach"
  shows "print_build_info E =
     (fst (print_catalog E) @
       [Echo (''       Platform: '' @ platform
                @ (if to_platform = platform then [] else '' -> '' @ to_platform)),
        Echo (''   Architecture: '' @ machine E
                @ (if to_mach = machine E then [] else '' -> '' @ to_mach)),
        if to_build \<in> set (base_platforms E) then Echo (''      Use build: '' @ to_build)
        else Echo ''   !! Unsupported platform/architecture combination'',
        Echo [], Echo (replicate 65 CHR ''='')],
      Inr ())"
proof -
  from assms(2,3) have c: "print_catalog E = (fst (print_catalog E), Inr ())"
    by (simp add: print_catalog_ok prod_eq_iff)
  have s: "print_system E platform (machine E) =
       ([Echo (''       Platform: '' @ platform
                @ (if to_platform = platform then [] else '' -> '' @ to_platform)),
        Echo (''   Architecture: '' @ machine E
                @ (if to_mach = machine E then [] else '' -> '' @ to_mach)),
        if to_build \<in> set (base_platforms E) then Echo (''      Use build: '' @ to_build)
        else Echo ''   !! Unsupported platform/architecture combination'',
        Echo [], Echo (replicate 65 CHR ''='')],
      Inr ())"
    using assms(5,6,7)
    by (simp add: print_system_def Let_def print_footer_run io_simps io_return_def echo_def)
  have "print_build_info E = io_seq (print_catalog E) (print_system E platform (machine E))"
    using assms(1,4) by (simp add: print_build_info_def io_simps)
  also have "\<dots> = io_seq (fst (print_catalog E), Inr ()) (print_system E platform (machine E))"
    using c by simp
  finally show ?thesis by (simp add: s io_simps)
qed

theorem print_build_info_system_witness:
  "get_file_downloader sample_env = Inr ()
   \<and> binary_distro_map sample_env \<noteq> [] \<and> binary_arch_map sample_env \<noteq> []
   \<and> get_arch_and_platform sample_env () ''auto'' = Inr ''ubuntu2004''
   \<and> print_build_info sample_env =
       (fst (print_catalog sample_env) @
         [Echo ''       Platform: ubuntu2004'',
          Echo ''   Architecture: amd64 -> x86_64'',
          Echo ''      Use build: ubuntu2004-x86_64'',
          Echo [], Echo (replicate 65 CHR ''='')], Inr ())
   \<and> print_build_info mips_env =
       (fst (print_catalog mips_env) @
         [Echo ''       Platform: ubuntu2004'',
          Echo ''   Architecture: mips'',
          Echo ''   !! Unsupported platform/architecture combination'',
          Echo [], Echo (replicate 65 CHR ''='')], Inr ())"
proof -
  have a1: "get_file_downloader sample_env = Inr ()" by (simp add: sample_env_def)
  have a2: "binary_distro_map sample_env \<noteq> []"
    by (simp add: sample_env_def sample_distro_map_def)
  have a3: "binary_arch_map sample_env \<noteq> []"
    by (simp add: sample_env_def sample_arch_map_def)
  have a4: "get_arch_and_platform sample_env () ''auto'' = Inr ''ubuntu2004''"
    by (simp add: sample_env_def)
  have a5: "''ubuntu2004'' = canonical_distro sample_env ''ubuntu2004''"
    by (simp add: sample_env_def sample_distro_map_def)
  have a6: "''x86_64'' = canonical_arch sample_env (machine sample_env)"
    by (simp add: sample_env_def sample_arch_map_def)
  have a7: "''ubuntu2004-x86_64'' = ''ubuntu2004'' @ ''-'' @ ''x86_64''" by simp
  have m: "machine sample_env = ''amd64''" by (simp add: sample_env_def)
  have b: "''ubuntu2004-x86_64'' \<in> set (base_platforms sample_env)"
    by (simp add: sample_env_def sample_platforms_def)
  from print_build_info_system [OF a1 a2 a3 a4 a5 a6 a7] m b
  have A: "print_build_info sample_env =
       (fst (print_catalog sample_env) @
         [Echo ''       Platform: ubuntu2004'',
          Echo ''   Architecture: amd64 -> x86_64'',
          Echo ''      Use build: ubuntu2004-x86_64'',
          Echo [], Echo (replicate 65 CHR ''='')], Inr ())"
    by simp
  have c1: "get_file_downloader mips_env = Inr ()" by (simp add: mips_env_def sample_env_def)
  have c2: "binary_distro_map mips_env \<noteq> []"
    by (simp add: mips_env_def sample_env_def sample_distro_map_def)
  have c3: "binary_arch_map mips_env \<noteq> []"
    by (simp add: mips_env_def sample_env_def sample_arch_map_def)
  have c4: "get_arch_and_platform mips_env () ''auto'' = Inr ''ubuntu2004''"
    by (simp add: mips_env_def sample_env_def)
  have c5: "''ubuntu2004'' = canonical_distro mips_env ''ubuntu2004''"
    by (simp add: mips_env_def sample_env_def sample_distro_map_def)
  have c6: "''mips'' = canonical_arch mips_env (machine mips_env)"
    by (simp add: mips_env_def sample_env_def sample_arch_map_def)
  have c7: "''ubuntu2004-mips'' = ''ubuntu2004'' @ ''-'' @ ''mips''" by simp
  have m': "machine mips_env = ''mips''" by (simp add: mips_env_def)
  have b': "''ubuntu2004-mips'' \<notin> set (base_platforms mips_env)"
    by (simp add: mips_env_def sample_env_def sample_platforms_def)
  from print_build_info_system [OF c1 c2 c3 c4 c5 c6 c7] m' b'
  have B: "print_build_info mips_env =
       (fst (print_catalog mips_env) @
         [Echo ''       Platform: ubuntu2004'',
          Echo ''   Architecture: mips'',
          Echo ''   !! Unsupported platform/architecture combination'',
          Echo [], Echo (replicate 65 CHR ''='')], Inr ())"
    by simp
  from a1 a2 a3 a4 A B show ?thesis by blast
qed



subsection \<open>\<^verbatim>\<open>get-extensions --info\<close>\<close>

text \<open>What \<^verbatim>\<open>print_build_info\<close> prints, part by part.\<close>

lemma print_aliases_run:
  "data \<noteq> [] \<Longrightarrow>
   print_aliases name data =
     (Echo (''\<newline>'' @ name @ '' aliases:'')
      # map (\<lambda>n. Echo (''    ''
               @ rjust (fold max (map (\<lambda>(name, ks). length name) (build_rmap data)) 0) n
               @ '': '' @ str_join '', '' (sort (rmap_get (build_rmap data) n))))
          (sort (map fst (build_rmap data))),
      Inr ())"
  by (simp add: print_aliases_def Let_def build_rmap_nonempty for_each_echo io_seq_echo)

lemma print_catalog_run:
  assumes "binary_distro_map E \<noteq> []" and "binary_arch_map E \<noteq> []"
  shows "print_catalog E =
     ([Echo (replicate 65 CHR ''-''), Echo ''IDAES Extensions Build Information'',
       Echo (replicate 65 CHR ''=''), Echo ''\<newline>All Builds (Platform-Architecture):'']
      @ map (\<lambda>build. Echo (''   '' @ build)) (base_platforms E)
      @ fst (print_aliases ''Platform'' (binary_distro_map E))
      @ fst (print_aliases ''Architecture'' (binary_arch_map E))
      @ [Echo ''\<newline>Current system information:''],
      Inr ())"
proof -
  have a1: "print_aliases ''Platform'' (binary_distro_map E) =
              (fst (print_aliases ''Platform'' (binary_distro_map E)), Inr ())"
    using print_aliases_ok [OF assms(1), of "''Platform''"] by (simp add: prod_eq_iff)
  have a2: "print_aliases ''Architecture'' (binary_arch_map E) =
              (fst (print_aliases ''Architecture'' (binary_arch_map E)), Inr ())"
    using print_aliases_ok [OF assms(2), of "''Architecture''"] by (simp add: prod_eq_iff)
  have "print_catalog E =
     io_seq (print_header ''Build Information'')
      (io_seq (echo ''\<newline>All Builds (Platform-Architecture):'')
        (io_seq (for_each (\<lambda>build. echo (''   '' @ build)) (base_platforms E))
          (io_seq (print_aliases ''Platform'' (binary_distro_map E))
            (io_seq (print_aliases ''Architecture'' (binary_arch_map E))
              (io_seq (echo ''\<newline>Current system information:'') (io_return ()))))))"
    by (simp add: print_catalog_def)
  also have "\<dots> =
     io_seq (print_header ''Build Information'')
      (io_seq (echo ''\<newline>All Builds (Platform-Architecture):'')
        (io_seq (map (\<lambda>build. Echo (''   '' @ build)) (base_platforms E), Inr ())
          (io_seq (fst (print_aliases ''Platform'' (binary_distro_map E)), Inr ())
            (io_seq (fst (print_aliases ''Architecture'' (binary_arch_map E)), Inr ())
              (io_seq (echo ''\<newline>Current system information:'') (io_return ()))))))"
    using a1 a2 by (simp only: for_each_echo)
  finally show ?thesis
    by (simp add: print_header_run io_seq_ok io_seq_echo io_return_def)
qed


lemma print_system_run:
  "print_system E platform arch =
     ([Echo (''       Platform: '' @ platform
              @ (if canonical_distro E platform = platform then []
                 else '' -> '' @ canonical_distro E platform)),
       Echo (''   Architecture: '' @ arch
              @ (if canonical_arch E arch = arch then [] else '' -> '' @ canonical_arch E arch)),
       if canonical_distro E platform @ ''-'' @ canonical_arch E arch \<in> set (base_platforms E)
       then Echo (''      Use build: '' @ canonical_distro E platform @ ''-'' @ canonical_arch E arch)
       else Echo ''   !! Unsupported platform/architecture combination'',
       Echo [], Echo (replicate 65 CHR ''='')],
      Inr ())"
  by (simp add: print_system_def Let_def print_footer_run io_simps io_return_def echo_def)

lemma print_build_info_independent:
  "print_build_info (E\<lparr>default_binary_release := r, download_binaries := d, open_read := f\<rparr>) =
   print_build_info E"
  by (simp add: print_build_info_def print_catalog_def print_system_def)

lemma sample_alias_lines_distro:
  "map (\<lambda>n. Echo (''    ''
        @ rjust (fold max (map (\<lambda>(name, ks). length name)
                             (build_rmap (binary_distro_map sample_env))) 0) n
        @ '': '' @ str_join '', ''
            (sort (rmap_get (build_rmap (binary_distro_map sample_env)) n))))
       (sort (map fst (build_rmap (binary_distro_map sample_env)))) =
   [Echo ''        darwin: macos'',
    Echo ''           el7: centos7, rhel7'',
    Echo ''    ubuntu2004: ubuntu2004'',
    Echo ''       windows: win64'']"
  by code_simp

lemma sample_alias_lines_arch:
  "map (\<lambda>n. Echo (''    ''
        @ rjust (fold max (map (\<lambda>(name, ks). length name)
                             (build_rmap (binary_arch_map sample_env))) 0) n
        @ '': '' @ str_join '', ''
            (sort (rmap_get (build_rmap (binary_arch_map sample_env)) n))))
       (sort (map fst (build_rmap (binary_arch_map sample_env)))) =
   [Echo ''    aarch64: arm64'',
    Echo ''     x86_64: amd64, x64'']"
  by code_simp

lemma sample_build_lines:
  "map (\<lambda>build. Echo (''   '' @ build)) (base_platforms sample_env) =
   [Echo ''   darwin-aarch64'', Echo ''   el7-x86_64'', Echo ''   ubuntu2004-x86_64'']"
  by (simp add: sample_env_def sample_platforms_def)

lemma sample_system_facts: "canonical_distro sample_env ''ubuntu2004'' = ''ubuntu2004''"
    "machine sample_env = ''amd64''"
    "canonical_arch sample_env ''amd64'' = ''x86_64''"
    "base_platforms sample_env = [''darwin-aarch64'', ''el7-x86_64'', ''ubuntu2004-x86_64'']"
    by (simp_all add: sample_env_def sample_distro_map_def sample_arch_map_def
        sample_platforms_def)

text \<open>
  Claim C10. With \<^verbatim>\<open>--info\<close> set the command is \<^verbatim>\<open>print_build_info\<close> and nothing more: its
  trace and result are those of \<^verbatim>\<open>print_build_info\<close>, no call of \<^verbatim>\<open>download_binaries\<close> is
  in the trace, and the run is the same for every value of every other option, of the
  default release, of the download collaborator and of the version files. What it prints,
  once the downloader and the probe have answered and both alias tables are non-empty, is
  the build information line by line: the header, the catalogue of builds, the two alias
  tables and the report on the current system; after the footer the command returns.
\<close>

theorem get_extensions_info:
  assumes "opt_info opts"
  shows "get_extensions E opts = print_build_info E
         \<and> (\<forall>a. DownloadBinaries a \<notin> set (fst (get_extensions E opts)))
         \<and> (\<forall>opts' r d f. opt_info opts' \<longrightarrow>
              get_extensions (E\<lparr>default_binary_release := r, download_binaries := d,
                                open_read := f\<rparr>) opts' = get_extensions E opts)
         \<and> (\<forall>fd platform.
              get_file_downloader E = Inr fd
              \<and> binary_distro_map E \<noteq> [] \<and> binary_arch_map E \<noteq> []
              \<and> get_arch_and_platform E fd ''auto'' = Inr platform
            \<longrightarrow> get_extensions E opts =
              ([Echo (replicate 65 CHR ''-''), Echo ''IDAES Extensions Build Information'',
                Echo (replicate 65 CHR ''=''),
                Echo ''\<newline>All Builds (Platform-Architecture):'']
               @ map (\<lambda>build. Echo (''   '' @ build)) (base_platforms E)
               @ [Echo ''\<newline>Platform aliases:'']
               @ map (\<lambda>n. Echo (''    ''
                    @ rjust (fold max (map (\<lambda>(name, ks). length name)
                                         (build_rmap (binary_distro_map E))) 0) n
                    @ '': '' @ str_join '', '' (sort (rmap_get (build_rmap (binary_distro_map E)) n))))
                   (sort (map fst (build_rmap (binary_distro_map E))))
               @ [Echo ''\<newline>Architecture aliases:'']
               @ map (\<lambda>n. Echo (''    ''
                    @ rjust (fold max (map (\<lambda>(name, ks). length name)
                                         (build_rmap (binary_arch_map E))) 0) n
                    @ '': '' @ str_join '', '' (sort (rmap_get (build_rmap (binary_arch_map E)) n))))
                   (sort (map fst (build_rmap (binary_arch_map E))))
               @ [Echo ''\<newline>Current system information:'',
                  Echo (''       Platform: '' @ platform
                        @ (if canonical_distro E platform = platform then []
                           else '' -> '' @ canonical_distro E platform)),
                  Echo (''   Architecture: '' @ machine E
                        @ (if canonical_arch E (machine E) = machine E then []
                           else '' -> '' @ canonical_arch E (machine E))),
                  if canonical_distro E platform @ ''-'' @ canonical_arch E (machine E)
                       \<in> set (base_platforms E)
                  then Echo (''      Use build: '' @ canonical_distro E platform @ ''-''
                             @ canonical_arch E (machine E))
                  else Echo ''   !! Unsupported platform/architecture combination'',
                  Echo [], Echo (replicate 65 CHR ''='')],
               Inr ()))"
proof -
  have 1: "get_extensions E opts = print_build_info E"
    using assms by (simp add: get_extensions_def)
  have 2: "\<forall>a. DownloadBinaries a \<notin> set (fst (get_extensions E opts))"
    by (simp add: 1 only_echo_no_download)
  have 3: "\<forall>opts' r d f. opt_info opts' \<longrightarrow>
              get_extensions (E\<lparr>default_binary_release := r, download_binaries := d,
                                open_read := f\<rparr>) opts' = get_extensions E opts"
  proof (intro allI impI)
    fix opts' :: options and r d f
    assume "opt_info opts'"
    then have "get_extensions (E\<lparr>default_binary_release := r, download_binaries := d,
                                open_read := f\<rparr>) opts' =
               print_build_info (E\<lparr>default_binary_release := r, download_binaries := d,
                                open_read := f\<rparr>)"
      by (simp add: get_extensions_def)
    with 1 show "get_extensions (E\<lparr>default_binary_release := r, download_binaries := d,
                                open_read := f\<rparr>) opts' = get_extensions E opts"
      by (simp only: print_build_info_independent)
  qed
  have 4: "get_extensions E opts =
              ([Echo (replicate 65 CHR ''-''), Echo ''IDAES Extensions Build Information'',
                Echo (replicate 65 CHR ''=''),
                Echo ''\<newline>All Builds (Platform-Architecture):'']
               @ map (\<lambda>build. Echo (''   '' @ build)) (base_platforms E)
               @ [Echo ''\<newline>Platform aliases:'']
               @ map (\<lambda>n. Echo (''    ''
                    @ rjust (fold max (map (\<lambda>(name, ks). length name)
                                         (build_rmap (binary_distro_map E))) 0) n
                    @ '': '' @ str_join '', '' (sort (rmap_get (build_rmap (binary_distro_map E)) n))))
                   (sort (map fst (build_rmap (binary_distro_map E))))
               @ [Echo ''\<newline>Architecture aliases:'']
               @ map (\<lambda>n. Echo (''    ''
                    @ rjust (fold max (map (\<lambda>(name, ks). length name)
                                         (build_rmap (binary_arch_map E))) 0) n
                    @ '': '' @ str_join '', '' (sort (rmap_get (build_rmap (binary_arch_map E)) n))))
                   (sort (map fst (build_rmap (binary_arch_map E))))
               @ [Echo ''\<newline>Current system information:'',
                  Echo (''       Platform: '' @ platform
                        @ (if canonical_distro E platform = platform then []
                           else '' -> '' @ canonical_distro E platform)),
                  Echo (''   Architecture: '' @ machine E
                        @ (if canonical_arch E (machine E) = machine E then []
                           else '' -> '' @ canonical_arch E (machine E))),
                  if canonical_distro E platform @ ''-'' @ canonical_arch E (machine E)
                       \<in> set (base_platforms E)
                  then Echo (''      Use build: '' @ canonical_distro E platform @ ''-''
                             @ canonical_arch E (machine E))
                  else Echo ''   !! Unsupported platform/architecture combination'',
                  Echo [], Echo (replicate 65 CHR ''='')],
               Inr ())"
    if h: "get_file_downloader E = Inr fd
              \<and> binary_distro_map E \<noteq> [] \<and> binary_arch_map E \<noteq> []
              \<and> get_arch_and_platform E fd ''auto'' = Inr platform" for fd platform
  proof -
    from h have c: "print_catalog E =
     ([Echo (replicate 65 CHR ''-''), Echo ''IDAES Extensions Build Information'',
       Echo (replicate 65 CHR ''=''), Echo ''\<newline>All Builds (Platform-Architecture):'']
      @ map (\<lambda>build. Echo (''   '' @ build)) (base_platforms E)
      @ fst (print_aliases ''Platform'' (binary_distro_map E))
      @ fst (print_aliases ''Architecture'' (binary_arch_map E))
      @ [Echo ''\<newline>Current system information:''],
      Inr ())"
      by (intro print_catalog_run) simp_all
    from h have "print_build_info E = io_seq (print_catalog E) (print_system E platform (machine E))"
      by (simp add: print_build_info_def io_simps)
    then show ?thesis
      using h unfolding 1 c print_system_run
      by (simp add: print_aliases_run io_seq_ok)
  qed
  from 1 2 3 4 show ?thesis by blast
qed

theorem get_extensions_info_witness:
  "opt_info info_options
   \<and> get_extensions sample_env info_options =
       ([Echo (replicate 65 CHR ''-''),
         Echo ''IDAES Extensions Build Information'',
         Echo (replicate 65 CHR ''=''),
         Echo ''\<newline>All Builds (Platform-Architecture):'',
         Echo ''   darwin-aarch64'',
         Echo ''   el7-x86_64'',
         Echo ''   ubuntu2004-x86_64'',
         Echo ''\<newline>Platform aliases:'',
         Echo ''        darwin: macos'',
         Echo ''           el7: centos7, rhel7'',
         Echo ''    ubuntu2004: ubuntu2004'',
         Echo ''       windows: win64'',
         Echo ''\<newline>Architecture aliases:'',
         Echo ''    aarch64: arm64'',
         Echo ''     x86_64: amd64, x64'',
         Echo ''\<newline>Current system information:'',
         Echo ''       Platform: ubuntu2004'',
         Echo ''   Architecture: amd64 -> x86_64'',
         Echo ''      Use build: ubuntu2004-x86_64'',
         Echo [],
         Echo (replicate 65 CHR ''='')], Inr ())
   \<and> get_extensions plan9_env (sample_options\<lparr>opt_info := True\<rparr>) =
       get_extensions sample_env info_options"
proof -
  have h: "opt_info info_options" by (simp add: info_options_def)
  have h': "opt_info (sample_options\<lparr>opt_info := True\<rparr>)" by simp
  have e: "sample_env\<lparr>default_binary_release := Some ''3.4.2'',
             download_binaries :=
               (\<lambda>args. Inl (UnsupportedPlatformError ''Unsupported platform: plan9-mips'')),
             open_read := (\<lambda>p. Inl FileNotFoundError)\<rparr> = plan9_env"
    by (simp add: plan9_env_def sample_env_def)
  have r: "get_file_downloader sample_env = Inr ()
              \<and> binary_distro_map sample_env \<noteq> [] \<and> binary_arch_map sample_env \<noteq> []
              \<and> get_arch_and_platform sample_env () ''auto'' = Inr ''ubuntu2004''"
    by (simp add: sample_env_def sample_distro_map_def sample_arch_map_def)
  note T = get_extensions_info [OF h, of sample_env]
  note T3 = T [THEN conjunct2, THEN conjunct2, THEN conjunct1,
               THEN spec, THEN spec, THEN spec, THEN spec, THEN mp, OF h']
  note T4 = T [THEN conjunct2, THEN conjunct2, THEN conjunct2,
               THEN spec, THEN spec, THEN mp, OF r]
  have A: "get_extensions sample_env info_options =
       ([Echo (replicate 65 CHR ''-''),
         Echo ''IDAES Extensions Build Information'',
         Echo (replicate 65 CHR ''=''),
         Echo ''\<newline>All Builds (Platform-Architecture):'',
         Echo ''   darwin-aarch64'',
         Echo ''   el7-x86_64'',
         Echo ''   ubuntu2004-x86_64'',
         Echo ''\<newline>Platform aliases:'',
         Echo ''        darwin: macos'',
         Echo ''           el7: centos7, rhel7'',
         Echo ''    ubuntu2004: ubuntu2004'',
         Echo ''       windows: win64'',
         Echo ''\<newline>Architecture aliases:'',
         Echo ''    aarch64: arm64'',
         Echo ''     x86_64: amd64, x64'',
         Echo ''\<newline>Current system information:'',
         Echo ''       Platform: ubuntu2004'',
         Echo ''   Architecture: amd64 -> x86_64'',
         Echo ''      Use build: ubuntu2004-x86_64'',
         Echo [],
         Echo (replicate 65 CHR ''='')], Inr ())"
    unfolding T4 sample_alias_lines_distro sample_alias_lines_arch sample_build_lines
    by (simp add: sample_system_facts)
  have B: "get_extensions plan9_env (sample_options\<lparr>opt_info := True\<rparr>) =
       get_extensions sample_env info_options"
    unfolding e [symmetric] by (rule T3)
  from h A B show ?thesis by (intro conjI)
qed

subsection \<open>\<^verbatim>\<open>hash-extensions\<close>: the manifest\<close>

text \<open>
  The two nested loops, the second with its \<^verbatim>\<open>continue\<close>, are one loop over
  \<open>manifest_order\<close>.
\<close>

lemma extras_loop:
  "for_each (\<lambda>(pack, sp). if plat \<notin> set sp then io_return () else write_hash E path pack plat)
     extras =
   for_each (\<lambda>(pack, plat). write_hash E path pack plat)
     (map (\<lambda>(pack, sp). (pack, plat)) (filter (\<lambda>(pack, sp). plat \<in> set sp) extras))"
  by (induction extras) (auto simp: io_simps)

lemma base_loop:
  "for_each (\<lambda>pack. write_hash E path pack plat) [''solvers'', ''lib''] =
   for_each (\<lambda>(pack, plat). write_hash E path pack plat) [(''solvers'', plat), (''lib'', plat)]"
  by simp

lemma hash_extensions_flat:
  "hash_extensions E release path =
     io_bind (open_for_writing E (under_path path (''sha256sum_'' @ release @ ''.txt'')))
       (\<lambda>f. for_each (\<lambda>(pack, plat). write_hash E path pack plat)
          (manifest_order (base_platforms E) (extra_binaries E)))"
proof -
  let ?wh = "\<lambda>(pack, plat). write_hash E path pack plat"
  have 1: "for_each
           (\<lambda>plat. for_each (\<lambda>pack. write_hash E path pack plat) [''solvers'', ''lib''])
           (base_platforms E) =
        for_each ?wh (concat (map (\<lambda>plat. [(''solvers'', plat), (''lib'', plat)]) (base_platforms E)))"
    by (simp only: base_loop for_each_concat)
  have 2: "for_each
           (\<lambda>plat. for_each
              (\<lambda>(pack, sp). if plat \<notin> set sp then io_return () else write_hash E path pack plat)
              (extra_binaries E))
           (base_platforms E) =
        for_each ?wh (concat (map (\<lambda>plat. map (\<lambda>(pack, sp). (pack, plat))
                              (filter (\<lambda>(pack, sp). plat \<in> set sp) (extra_binaries E)))
                         (base_platforms E)))"
    by (simp only: extras_loop for_each_concat)
  show ?thesis
    unfolding hash_extensions_def Let_def block.simps 1 2 manifest_order_def for_each_append
    by (simp only: io_seq_return_right)
qed

text \<open>What one call of \<^verbatim>\<open>_write_hash\<close> does, and what the command does with it.\<close>

lemma write_hash_run:
  "write_hash E path pack plat =
     (case hash_file_sha256 E (under_path path (''idaes-'' @ pack @ ''-'' @ plat @ ''.tar.gz'')) of
        Inl e \<Rightarrow> ([], Inl e)
      | Inr h \<Rightarrow> ([FileWrite h, FileWrite ''  '',
                   FileWrite (''idaes-'' @ pack @ ''-'' @ plat @ ''.tar.gz''),
                   FileWrite ''\<newline>''], Inr ()))"
  by (simp add: write_hash_def artifact_file_def NL_def io_simps io_raise_def io_return_def
      split: sum.splits)

lemma hash_extensions_run:
  "hash_extensions E release path =
     (case open_write E (under_path path (''sha256sum_'' @ release @ ''.txt'')) of
        Inl e \<Rightarrow> ([], Inl e)
      | Inr u \<Rightarrow>
          io_seq ([OpenWrite (under_path path (''sha256sum_'' @ release @ ''.txt''))], Inr ())
            (for_each
               (\<lambda>(pack, plat).
                  case hash_file_sha256 E
                         (under_path path (''idaes-'' @ pack @ ''-'' @ plat @ ''.tar.gz'')) of
                    Inl e \<Rightarrow> ([], Inl e)
                  | Inr h \<Rightarrow> ([FileWrite h, FileWrite ''  '',
                               FileWrite (''idaes-'' @ pack @ ''-'' @ plat @ ''.tar.gz''),
                               FileWrite ''\<newline>''], Inr ()))
               (manifest_order (base_platforms E) (extra_binaries E))))"
proof -
  have wh: "(\<lambda>(pack, plat). write_hash E path pack plat) =
        (\<lambda>(pack, plat).
                  case hash_file_sha256 E
                         (under_path path (''idaes-'' @ pack @ ''-'' @ plat @ ''.tar.gz'')) of
                    Inl e \<Rightarrow> ([], Inl e)
                  | Inr h \<Rightarrow> ([FileWrite h, FileWrite ''  '',
                               FileWrite (''idaes-'' @ pack @ ''-'' @ plat @ ''.tar.gz''),
                               FileWrite ''\<newline>''], Inr ()))"
    by (simp add: write_hash_run)
  show ?thesis
    unfolding hash_extensions_flat wh
    by (cases "open_write E (under_path path (''sha256sum_'' @ release @ ''.txt''))")
       (simp_all add: open_for_writing_def io_seq_def)
qed

lemma for_each_all_ok:
  "(\<And>x. x \<in> set xs \<Longrightarrow> body x = (t x, Inr ())) \<Longrightarrow>
   for_each body xs = (concat (map t xs), Inr ())"
  by (induction xs) (simp_all add: io_return_def io_simps)

lemma written_manifest:
  "written (concat (map (\<lambda>(pack, plat). [FileWrite (H pack plat), FileWrite ''  '',
                               FileWrite (F pack plat), FileWrite ''\<newline>'']) ls)) =
   concat (map (\<lambda>(pack, plat). H pack plat @ ''  '' @ F pack plat @ ''\<newline>'') ls)"
  by (induction ls) auto

lemma write_hash_lines:
  "\<exists>ls rest.
     map snd ls @ rest = arts
     \<and> (\<forall>(h, pack, plat) \<in> set ls.
           hash_file_sha256 E (under_path path (''idaes-'' @ pack @ ''-'' @ plat @ ''.tar.gz'')) = Inr h)
     \<and> fst (for_each (\<lambda>(pack, plat). write_hash E path pack plat) arts) =
         concat (map (\<lambda>(h, pack, plat).
           [FileWrite h, FileWrite ''  '',
            FileWrite (''idaes-'' @ pack @ ''-'' @ plat @ ''.tar.gz''), FileWrite ''\<newline>'']) ls)
     \<and> (snd (for_each (\<lambda>(pack, plat). write_hash E path pack plat) arts) = Inr () \<longrightarrow> rest = [])"
proof (induction arts)
  case Nil
  show ?case by (simp add: io_return_def)
next
  case (Cons a arts)
  obtain pack plat where a: "a = (pack, plat)" by (cases a)
  let ?wh = "\<lambda>(pack, plat). write_hash E path pack plat"
  let ?line = "\<lambda>(h, pack, plat).
           [FileWrite h, FileWrite ''  '',
            FileWrite (''idaes-'' @ pack @ ''-'' @ plat @ ''.tar.gz''), FileWrite ''\<newline>'']"
  show ?case
  proof (cases "hash_file_sha256 E (under_path path (''idaes-'' @ pack @ ''-'' @ plat @ ''.tar.gz''))")
    case (Inl e)
    then have "for_each ?wh (a # arts) = ([], Inl e)"
      by (simp add: a write_hash_run io_simps)
    then have "map snd [] @ (a # arts) = a # arts
       \<and> (\<forall>(h, pack, plat) \<in> set [].
           hash_file_sha256 E (under_path path (''idaes-'' @ pack @ ''-'' @ plat @ ''.tar.gz'')) = Inr h)
       \<and> fst (for_each ?wh (a # arts)) = concat (map ?line [])
       \<and> (snd (for_each ?wh (a # arts)) = Inr () \<longrightarrow> a # arts = [])"
      by simp
    then show ?thesis by blast
  next
    case (Inr h)
    from Cons.IH obtain ls rest where
      1: "map snd ls @ rest = arts" and
      2: "\<forall>(h, pack, plat) \<in> set ls.
           hash_file_sha256 E (under_path path (''idaes-'' @ pack @ ''-'' @ plat @ ''.tar.gz'')) = Inr h" and
      3: "fst (for_each ?wh arts) = concat (map ?line ls)" and
      4: "snd (for_each ?wh arts) = Inr () \<longrightarrow> rest = []"
      by blast
    from Inr have run: "for_each ?wh (a # arts) =
        (?line (h, pack, plat) @ fst (for_each ?wh arts), snd (for_each ?wh arts))"
      by (simp add: a write_hash_run io_simps)
    have "map snd ((h, pack, plat) # ls) @ rest = a # arts
       \<and> (\<forall>(h, pack, plat) \<in> set ((h, pack, plat) # ls).
           hash_file_sha256 E (under_path path (''idaes-'' @ pack @ ''-'' @ plat @ ''.tar.gz'')) = Inr h)
       \<and> fst (for_each ?wh (a # arts)) = concat (map ?line ((h, pack, plat) # ls))
       \<and> (snd (for_each ?wh (a # arts)) = Inr () \<longrightarrow> rest = [])"
      using 1 2 3 4 Inr unfolding run by (simp add: a)
    then show ?thesis by blast
  qed
qed

text \<open>
  Claim C1. For every release and path, \<^verbatim>\<open>hash_extensions\<close> first opens the manifest; if
  that raises, nothing is hashed or written. Otherwise it goes through the artifacts in
  the order of \<open>manifest_order\<close>: every platform of \<open>base_platforms\<close> with solvers and
  then lib, and only after all of them every platform again with the extras whose
  platforms contain it, the others being skipped. For each artifact it computes the hash
  and writes one line (hash, two spaces, file name, newline); a hash that raises ends the
  run there. When the open and every hash succeed, the manifest holds exactly one line
  per artifact, in that order.
\<close>

theorem hash_extensions_order:
  "hash_extensions E release path =
     (case open_write E (under_path path (''sha256sum_'' @ release @ ''.txt'')) of
        Inl e \<Rightarrow> ([], Inl e)
      | Inr u \<Rightarrow>
          io_seq ([OpenWrite (under_path path (''sha256sum_'' @ release @ ''.txt''))], Inr ())
            (for_each
               (\<lambda>(pack, plat).
                  case hash_file_sha256 E
                         (under_path path (''idaes-'' @ pack @ ''-'' @ plat @ ''.tar.gz'')) of
                    Inl e \<Rightarrow> ([], Inl e)
                  | Inr h \<Rightarrow> ([FileWrite h, FileWrite ''  '',
                               FileWrite (''idaes-'' @ pack @ ''-'' @ plat @ ''.tar.gz''),
                               FileWrite ''\<newline>''], Inr ()))
               (manifest_order (base_platforms E) (extra_binaries E))))
   \<and> (\<forall>H. open_write E (under_path path (''sha256sum_'' @ release @ ''.txt'')) = Inr ()
          \<and> (\<forall>(pack, plat) \<in> set (manifest_order (base_platforms E) (extra_binaries E)).
                hash_file_sha256 E (under_path path (''idaes-'' @ pack @ ''-'' @ plat @ ''.tar.gz''))
                  = Inr (H pack plat))
        \<longrightarrow> hash_extensions E release path =
              (OpenWrite (under_path path (''sha256sum_'' @ release @ ''.txt''))
               # concat (map (\<lambda>(pack, plat).
                   [FileWrite (H pack plat), FileWrite ''  '',
                    FileWrite (''idaes-'' @ pack @ ''-'' @ plat @ ''.tar.gz''),
                    FileWrite ''\<newline>''])
                   (manifest_order (base_platforms E) (extra_binaries E))),
               Inr ())
            \<and> written (fst (hash_extensions E release path)) =
              concat (map (\<lambda>(pack, plat).
                   H pack plat @ ''  '' @ ''idaes-'' @ pack @ ''-'' @ plat @ ''.tar.gz'' @ ''\<newline>'')
                   (manifest_order (base_platforms E) (extra_binaries E))))"
proof (intro conjI allI impI)
  show "hash_extensions E release path =
     (case open_write E (under_path path (''sha256sum_'' @ release @ ''.txt'')) of
        Inl e \<Rightarrow> ([], Inl e)
      | Inr u \<Rightarrow>
          io_seq ([OpenWrite (under_path path (''sha256sum_'' @ release @ ''.txt''))], Inr ())
            (for_each
               (\<lambda>(pack, plat).
                  case hash_file_sha256 E
                         (under_path path (''idaes-'' @ pack @ ''-'' @ plat @ ''.tar.gz'')) of
                    Inl e \<Rightarrow> ([], Inl e)
                  | Inr h \<Rightarrow> ([FileWrite h, FileWrite ''  '',
                               FileWrite (''idaes-'' @ pack @ ''-'' @ plat @ ''.tar.gz''),
                               FileWrite ''\<newline>''], Inr ()))
               (manifest_order (base_platforms E) (extra_binaries E))))"
    by (rule hash_extensions_run)
next
  fix H
  let ?arts = "manifest_order (base_platforms E) (extra_binaries E)"
  let ?hfile = "under_path path (''sha256sum_'' @ release @ ''.txt'')"
  let ?line = "\<lambda>(pack, plat).
                   [FileWrite (H pack plat), FileWrite ''  '',
                    FileWrite (''idaes-'' @ pack @ ''-'' @ plat @ ''.tar.gz''),
                    FileWrite ''\<newline>'']"
  assume h: "open_write E ?hfile = Inr ()
          \<and> (\<forall>(pack, plat) \<in> set ?arts.
                hash_file_sha256 E (under_path path (''idaes-'' @ pack @ ''-'' @ plat @ ''.tar.gz''))
                  = Inr (H pack plat))"
  have "for_each (\<lambda>(pack, plat). write_hash E path pack plat) ?arts =
          (concat (map ?line ?arts), Inr ())"
  proof (rule for_each_all_ok)
    fix a assume "a \<in> set ?arts"
    with h show "(case a of (pack, plat) \<Rightarrow> write_hash E path pack plat) = (?line a, Inr ())"
      by (cases a) (auto simp: write_hash_run)
  qed
  with h show run: "hash_extensions E release path =
              (OpenWrite ?hfile # concat (map ?line ?arts), Inr ())"
    by (simp add: hash_extensions_flat open_for_writing_def)
  have "written (concat (map ?line ?arts)) =
        concat (map (\<lambda>(pack, plat).
                   H pack plat @ ''  '' @ ''idaes-'' @ pack @ ''-'' @ plat @ ''.tar.gz'' @ ''\<newline>'')
                   ?arts)"
    using written_manifest
      [of H "\<lambda>pack plat. ''idaes-'' @ pack @ ''-'' @ plat @ ''.tar.gz''" ?arts]
    by simp
  with run show "written (fst (hash_extensions E release path)) =
              concat (map (\<lambda>(pack, plat).
                   H pack plat @ ''  '' @ ''idaes-'' @ pack @ ''-'' @ plat @ ''.tar.gz'' @ ''\<newline>'')
                   ?arts)"
    by simp
qed


theorem hash_extensions_order_witness:
  "manifest_order (base_platforms sample_env) (extra_binaries sample_env) =
     [(''solvers'', ''darwin-aarch64''), (''lib'', ''darwin-aarch64''),
      (''solvers'', ''el7-x86_64''), (''lib'', ''el7-x86_64''),
      (''solvers'', ''ubuntu2004-x86_64''), (''lib'', ''ubuntu2004-x86_64''),
      (''petsc'', ''el7-x86_64''), (''petsc'', ''ubuntu2004-x86_64'')]
   \<and> open_write sample_env ''./sha256sum_3.4.2.txt'' = Inr ()
   \<and> written (fst (hash_extensions sample_env ''3.4.2'' (Some ''./''))) =
       ''h:./idaes-solvers-darwin-aarch64.tar.gz  idaes-solvers-darwin-aarch64.tar.gz\<newline>''
       @ ''h:./idaes-lib-darwin-aarch64.tar.gz  idaes-lib-darwin-aarch64.tar.gz\<newline>''
       @ ''h:./idaes-solvers-el7-x86_64.tar.gz  idaes-solvers-el7-x86_64.tar.gz\<newline>''
       @ ''h:./idaes-lib-el7-x86_64.tar.gz  idaes-lib-el7-x86_64.tar.gz\<newline>''
       @ ''h:./idaes-solvers-ubuntu2004-x86_64.tar.gz  idaes-solvers-ubuntu2004-x86_64.tar.gz\<newline>''
       @ ''h:./idaes-lib-ubuntu2004-x86_64.tar.gz  idaes-lib-ubuntu2004-x86_64.tar.gz\<newline>''
       @ ''h:./idaes-petsc-el7-x86_64.tar.gz  idaes-petsc-el7-x86_64.tar.gz\<newline>''
       @ ''h:./idaes-petsc-ubuntu2004-x86_64.tar.gz  idaes-petsc-ubuntu2004-x86_64.tar.gz\<newline>''
   \<and> snd (hash_extensions sample_env ''3.4.2'' (Some ''./'')) = Inr ()
   \<and> hash_extensions no_dir_env ''3.4.2'' (Some ''/missing'') = ([], Inl FileNotFoundError)"
proof -
  let ?H = "\<lambda>pack plat. ''h:./idaes-'' @ pack @ ''-'' @ plat @ ''.tar.gz''"
  have m: "manifest_order (base_platforms sample_env) (extra_binaries sample_env) =
     [(''solvers'', ''darwin-aarch64''), (''lib'', ''darwin-aarch64''),
      (''solvers'', ''el7-x86_64''), (''lib'', ''el7-x86_64''),
      (''solvers'', ''ubuntu2004-x86_64''), (''lib'', ''ubuntu2004-x86_64''),
      (''petsc'', ''el7-x86_64''), (''petsc'', ''ubuntu2004-x86_64'')]"
    by (simp add: manifest_order_def sample_env_def sample_platforms_def)
  have p: "under_path (Some ''./'') (''sha256sum_'' @ ''3.4.2'' @ ''.txt'') = ''./sha256sum_3.4.2.txt''"
    by (simp add: under_path_def os_path_join_def)
  have o: "open_write sample_env ''./sha256sum_3.4.2.txt'' = Inr ()"
    by (simp add: sample_env_def)
  have h: "\<forall>(pack, plat) \<in> set (manifest_order (base_platforms sample_env) (extra_binaries sample_env)).
             hash_file_sha256 sample_env
               (under_path (Some ''./'') (''idaes-'' @ pack @ ''-'' @ plat @ ''.tar.gz''))
             = Inr (?H pack plat)"
    by (simp add: sample_env_def under_path_def os_path_join_def split: prod.splits)
  have o': "open_write sample_env (under_path (Some ''./'') (''sha256sum_'' @ ''3.4.2'' @ ''.txt''))
              = Inr ()"
    by (simp add: sample_env_def)
  from hash_extensions_order [of sample_env "''3.4.2''" "Some ''./''", THEN conjunct2,
      THEN spec, of ?H] o' h
  have "hash_extensions sample_env ''3.4.2'' (Some ''./'') =
              (OpenWrite (under_path (Some ''./'') (''sha256sum_'' @ ''3.4.2'' @ ''.txt''))
               # concat (map (\<lambda>(pack, plat).
                   [FileWrite (?H pack plat), FileWrite ''  '',
                    FileWrite (''idaes-'' @ pack @ ''-'' @ plat @ ''.tar.gz''),
                    FileWrite ''\<newline>''])
                   (manifest_order (base_platforms sample_env) (extra_binaries sample_env))),
               Inr ())"
    by blast
  then have r: "hash_extensions sample_env ''3.4.2'' (Some ''./'') =
              (OpenWrite ''./sha256sum_3.4.2.txt''
               # concat (map (\<lambda>(pack, plat).
                   [FileWrite (?H pack plat), FileWrite ''  '',
                    FileWrite (''idaes-'' @ pack @ ''-'' @ plat @ ''.tar.gz''),
                    FileWrite ''\<newline>''])
                   (manifest_order (base_platforms sample_env) (extra_binaries sample_env))),
               Inr ())"
    unfolding p .
  have w: "written (fst (hash_extensions sample_env ''3.4.2'' (Some ''./''))) =
       ''h:./idaes-solvers-darwin-aarch64.tar.gz  idaes-solvers-darwin-aarch64.tar.gz\<newline>''
       @ ''h:./idaes-lib-darwin-aarch64.tar.gz  idaes-lib-darwin-aarch64.tar.gz\<newline>''
       @ ''h:./idaes-solvers-el7-x86_64.tar.gz  idaes-solvers-el7-x86_64.tar.gz\<newline>''
       @ ''h:./idaes-lib-el7-x86_64.tar.gz  idaes-lib-el7-x86_64.tar.gz\<newline>''
       @ ''h:./idaes-solvers-ubuntu2004-x86_64.tar.gz  idaes-solvers-ubuntu2004-x86_64.tar.gz\<newline>''
       @ ''h:./idaes-lib-ubuntu2004-x86_64.tar.gz  idaes-lib-ubuntu2004-x86_64.tar.gz\<newline>''
       @ ''h:./idaes-petsc-el7-x86_64.tar.gz  idaes-petsc-el7-x86_64.tar.gz\<newline>''
       @ ''h:./idaes-petsc-ubuntu2004-x86_64.tar.gz  idaes-petsc-ubuntu2004-x86_64.tar.gz\<newline>''"
    unfolding r m by simp
  have s: "snd (hash_extensions sample_env ''3.4.2'' (Some ''./'')) = Inr ()"
    unfolding r by simp
  have "open_write no_dir_env (under_path (Some ''/missing'') (''sha256sum_'' @ ''3.4.2'' @ ''.txt''))
          = Inl FileNotFoundError"
    by (simp add: no_dir_env_def)
  with hash_extensions_order [of no_dir_env "''3.4.2''" "Some ''/missing''"]
  have n: "hash_extensions no_dir_env ''3.4.2'' (Some ''/missing'') = ([], Inl FileNotFoundError)"
    by simp
  from m o w s n show ?thesis by blast
qed


text \<open>
  Claim C5. The manifest is opened as \<open>sha256sum_<release>.txt\<close>, joined to the path when
  one is given. What is written is, artifact by artifact along a prefix \<open>ls\<close> of the
  manifest order (all of it when the command returns normally, none of it when the open
  raises), the hash of the file \<open>idaes-<package>-<platform>.tar.gz\<close>, two spaces, that file
  name and a newline, and nothing else.
\<close>

theorem hash_extensions_line_format:
  "\<exists>ls rest.
     map snd ls @ rest = manifest_order (base_platforms E) (extra_binaries E)
     \<and> (\<forall>(h, pack, plat) \<in> set ls.
           hash_file_sha256 E (under_path path (''idaes-'' @ pack @ ''-'' @ plat @ ''.tar.gz'')) = Inr h)
     \<and> written (fst (hash_extensions E release path)) =
         concat (map (\<lambda>(h, pack, plat).
             h @ ''  '' @ ''idaes-'' @ pack @ ''-'' @ plat @ ''.tar.gz'' @ ''\<newline>'') ls)
     \<and> (\<forall>e. open_write E (under_path path (''sha256sum_'' @ release @ ''.txt'')) = Inl e \<longrightarrow>
           hash_extensions E release path = ([], Inl e) \<and> ls = [])
     \<and> (open_write E (under_path path (''sha256sum_'' @ release @ ''.txt'')) = Inr () \<longrightarrow>
           fst (hash_extensions E release path) =
             OpenWrite (under_path path (''sha256sum_'' @ release @ ''.txt''))
             # concat (map (\<lambda>(h, pack, plat).
                 [FileWrite h, FileWrite ''  '',
                  FileWrite (''idaes-'' @ pack @ ''-'' @ plat @ ''.tar.gz''), FileWrite ''\<newline>'']) ls))
     \<and> (snd (hash_extensions E release path) = Inr () \<longrightarrow> rest = [])
     \<and> (path = None \<longrightarrow>
          under_path path (''sha256sum_'' @ release @ ''.txt'') = ''sha256sum_'' @ release @ ''.txt'')
     \<and> (\<forall>p. path = Some p \<longrightarrow>
          under_path path (''sha256sum_'' @ release @ ''.txt'') =
            (if p = [] \<or> last p = CHR ''/'' then p else p @ ''/'')
            @ ''sha256sum_'' @ release @ ''.txt'')"
proof -
  let ?wh = "\<lambda>(pack, plat). write_hash E path pack plat"
  let ?arts = "manifest_order (base_platforms E) (extra_binaries E)"
  let ?hfile = "under_path path (''sha256sum_'' @ release @ ''.txt'')"
  let ?line = "\<lambda>(h, pack, plat).
           [FileWrite h, FileWrite ''  '',
            FileWrite (''idaes-'' @ pack @ ''-'' @ plat @ ''.tar.gz''), FileWrite ''\<newline>'']"
  let ?text = "\<lambda>(h, pack, plat).
             h @ ''  '' @ ''idaes-'' @ pack @ ''-'' @ plat @ ''.tar.gz'' @ ''\<newline>''"
  have n: "path = None \<longrightarrow> ?hfile = ''sha256sum_'' @ release @ ''.txt''"
    by (simp add: under_path_def)
  have p: "\<forall>p. path = Some p \<longrightarrow>
          ?hfile = (if p = [] \<or> last p = CHR ''/'' then p else p @ ''/'')
            @ ''sha256sum_'' @ release @ ''.txt''"
    by (simp add: under_path_def os_path_join_def)
  have wl: "written (concat (map ?line ls)) = concat (map ?text ls)" for ls
    by (induction ls) auto
  show ?thesis
  proof (cases "open_write E ?hfile")
    case (Inl e)
    then have run: "hash_extensions E release path = ([], Inl e)"
      by (simp add: hash_extensions_flat open_for_writing_def)
    have a: "map snd ([] :: (string \<times> string \<times> string) list) @ ?arts = ?arts" by simp
    have b: "\<forall>(h, pack, plat) \<in> set [].
           hash_file_sha256 E (under_path path (''idaes-'' @ pack @ ''-'' @ plat @ ''.tar.gz'')) = Inr h"
      by simp
    have c: "written (fst (hash_extensions E release path)) = concat (map ?text [])"
      by (simp add: run)
    have d: "\<forall>e. open_write E ?hfile = Inl e \<longrightarrow>
           hash_extensions E release path = ([], Inl e)
           \<and> ([] :: (string \<times> string \<times> string) list) = []"
      using Inl by (simp add: run)
    have e: "open_write E ?hfile = Inr () \<longrightarrow>
           fst (hash_extensions E release path) = OpenWrite ?hfile # concat (map ?line [])"
      using Inl by simp
    have f: "snd (hash_extensions E release path) = Inr () \<longrightarrow> ?arts = []"
      by (simp add: run)
    from a b c d e f n p show ?thesis by blast
  next
    case (Inr u)
    from write_hash_lines [of ?arts E path] obtain ls rest where
        1: "map snd ls @ rest = ?arts" and
        2: "\<forall>(h, pack, plat) \<in> set ls.
             hash_file_sha256 E (under_path path (''idaes-'' @ pack @ ''-'' @ plat @ ''.tar.gz'')) = Inr h" and
        3: "fst (for_each ?wh ?arts) = concat (map ?line ls)" and
        4: "snd (for_each ?wh ?arts) = Inr () \<longrightarrow> rest = []"
      by blast
    have run: "hash_extensions E release path =
        (OpenWrite ?hfile # concat (map ?line ls), snd (for_each ?wh ?arts))"
      using Inr
      by (simp add: hash_extensions_flat open_for_writing_def io_bind_ok 3 del: io_bind.simps)
    have c: "written (fst (hash_extensions E release path)) = concat (map ?text ls)"
      by (simp only: run fst_conv written.simps wl)
    have d: "\<forall>e. open_write E ?hfile = Inl e \<longrightarrow>
           hash_extensions E release path = ([], Inl e) \<and> ls = []"
      using Inr by simp
    have e: "open_write E ?hfile = Inr () \<longrightarrow>
           fst (hash_extensions E release path) = OpenWrite ?hfile # concat (map ?line ls)"
      by (simp only: run fst_conv simp_thms)
    have f: "snd (hash_extensions E release path) = Inr () \<longrightarrow> rest = []"
      using 4 by (simp only: run snd_conv)
    from 1 2 c d e f n p show ?thesis by blast
  qed
qed

theorem hash_extensions_line_format_witness:
  "(\<exists>ls. map snd ls = manifest_order (base_platforms sample_env) (extra_binaries sample_env)
      \<and> written (fst (hash_extensions sample_env ''3.4.2'' (Some ''./''))) =
          concat (map (\<lambda>(h, pack, plat).
             h @ ''  '' @ ''idaes-'' @ pack @ ''-'' @ plat @ ''.tar.gz'' @ ''\<newline>'') ls))
   \<and> hash_extensions sample_env ''3.4.2'' (Some ''./'') =
       (OpenWrite ''./sha256sum_3.4.2.txt'' #
        concat (map (\<lambda>f. [FileWrite (''h:./'' @ f), FileWrite ''  '', FileWrite f, FileWrite ''\<newline>''])
          [''idaes-solvers-darwin-aarch64.tar.gz'', ''idaes-lib-darwin-aarch64.tar.gz'',
           ''idaes-solvers-el7-x86_64.tar.gz'', ''idaes-lib-el7-x86_64.tar.gz'',
           ''idaes-solvers-ubuntu2004-x86_64.tar.gz'', ''idaes-lib-ubuntu2004-x86_64.tar.gz'',
           ''idaes-petsc-el7-x86_64.tar.gz'', ''idaes-petsc-ubuntu2004-x86_64.tar.gz'']),
        Inr ())
   \<and> open_write no_dir_env (under_path (Some ''/missing'') (''sha256sum_'' @ ''3.4.2'' @ ''.txt''))
        = Inl FileNotFoundError
   \<and> hash_extensions no_dir_env ''3.4.2'' (Some ''/missing'') = ([], Inl FileNotFoundError)"
proof -
  have run: "hash_extensions sample_env ''3.4.2'' (Some ''./'') =
       (OpenWrite ''./sha256sum_3.4.2.txt'' #
        concat (map (\<lambda>f. [FileWrite (''h:./'' @ f), FileWrite ''  '', FileWrite f, FileWrite ''\<newline>''])
          [''idaes-solvers-darwin-aarch64.tar.gz'', ''idaes-lib-darwin-aarch64.tar.gz'',
           ''idaes-solvers-el7-x86_64.tar.gz'', ''idaes-lib-el7-x86_64.tar.gz'',
           ''idaes-solvers-ubuntu2004-x86_64.tar.gz'', ''idaes-lib-ubuntu2004-x86_64.tar.gz'',
           ''idaes-petsc-el7-x86_64.tar.gz'', ''idaes-petsc-ubuntu2004-x86_64.tar.gz'']),
        Inr ())"
    by (simp add: hash_extensions_def open_for_writing_def write_hash_def under_path_def
        os_path_join_def artifact_file_def sample_env_def sample_platforms_def io_simps
        io_return_def NL_def Let_def)
  then have ok: "snd (hash_extensions sample_env ''3.4.2'' (Some ''./'')) = Inr ()"
    by simp
  from hash_extensions_line_format [of sample_env "Some ''./''" "''3.4.2''"] ok
  obtain ls where one:
    "map snd ls = manifest_order (base_platforms sample_env) (extra_binaries sample_env)
      \<and> written (fst (hash_extensions sample_env ''3.4.2'' (Some ''./''))) =
          concat (map (\<lambda>(h, pack, plat).
             h @ ''  '' @ ''idaes-'' @ pack @ ''-'' @ plat @ ''.tar.gz'' @ ''\<newline>'') ls)"
    by auto
  have o: "open_write no_dir_env (under_path (Some ''/missing'') (''sha256sum_'' @ ''3.4.2'' @ ''.txt''))
        = Inl FileNotFoundError"
    by (simp add: no_dir_env_def)
  from hash_extensions_line_format [of no_dir_env "Some ''/missing''" "''3.4.2''"] o
  have two: "hash_extensions no_dir_env ''3.4.2'' (Some ''/missing'') = ([], Inl FileNotFoundError)"
    by blast
  from one run o two show ?thesis by blast
qed






end
